theory Spec2Isabelle
  imports Main "HOL-Library.Word" "HOL-Library.AList"
begin

section \<open>Domain model (internal/domain)\<close>

text \<open>
  Instants (Go's \<open>time.Time\<close>) are integers counting nanoseconds since the Unix epoch;
  \<open>t.After(u)\<close> is \<open>u < t\<close>.  Every reading of the clock and every generated identifier
  is an explicit argument of the function that takes it.
\<close>

type_synonym time = int

datatype AMLCheckStatus = StatusProcessing | StatusCompleted | StatusFailed

text \<open>\<open>type RiskLevel string\<close>: a string with four named values.\<close>

type_synonym RiskLevel = string

definition RiskLevelLow :: RiskLevel where
  "RiskLevelLow = ''Low''"

definition RiskLevelMedium :: RiskLevel where
  "RiskLevelMedium = ''Medium''"

definition RiskLevelHigh :: RiskLevel where
  "RiskLevelHigh = ''High''"

definition RiskLevelCritical :: RiskLevel where
  "RiskLevelCritical = ''Critical''"

definition DeriveRiskLevel :: "int \<Rightarrow> RiskLevel" where
  "DeriveRiskLevel score =
     (if score \<ge> 80 then RiskLevelCritical
      else if score \<ge> 60 then RiskLevelHigh
      else if score \<ge> 30 then RiskLevelMedium
      else RiskLevelLow)"

record SanctionsIdentification =
  Category :: string
  Name :: string
  URL :: string

record SanctionsResult =
  Hit :: bool
  Identifications :: "SanctionsIdentification list"

text \<open>
  \<open>Sanctions\<close> is a pointer in the source and may be nil: an option.  A nil slice and an
  empty slice of categories are both the empty list.
\<close>

record AMLCheck =
  ID :: string
  Address :: string
  Currency :: string
  Status :: AMLCheckStatus
  RiskScore :: int
  RiskLevel :: RiskLevel
  Categories :: "string list"
  Sanctions :: "SanctionsResult option"
  ReportKey :: string
  ErrorMessage :: string
  CreatedAt :: time
  UpdatedAt :: time
  ExpiresAt :: time

definition NewAMLCheck :: "string \<Rightarrow> time \<Rightarrow> string \<Rightarrow> string \<Rightarrow> int \<Rightarrow> AMLCheck" where
  \<comment> \<open>\<open>uuid\<close> is the value of \<open>uuid.New().String()\<close>, \<open>now\<close> that of \<open>time.Now().UTC()\<close>.\<close>
  "NewAMLCheck uuid now address currency ttl =
     \<lparr> ID = uuid, Address = address, Currency = currency, Status = StatusProcessing,
       RiskScore = 0, RiskLevel = [], Categories = [],
       Sanctions = Some \<lparr> Hit = False, Identifications = [] \<rparr>,
       ReportKey = [], ErrorMessage = [],
       CreatedAt = now, UpdatedAt = now, ExpiresAt = now + ttl \<rparr>"

definition MarkCompleted ::
  "time \<Rightarrow> AMLCheck \<Rightarrow> int \<Rightarrow> RiskLevel \<Rightarrow> string list \<Rightarrow> SanctionsResult option \<Rightarrow> string \<Rightarrow> AMLCheck" where
  "MarkCompleted now c riskScore riskLevel categories sanctions reportKey =
     c \<lparr> Status := StatusCompleted, RiskScore := riskScore, RiskLevel := riskLevel,
         Categories := categories, Sanctions := sanctions, ReportKey := reportKey,
         UpdatedAt := now \<rparr>"

definition MarkFailed :: "time \<Rightarrow> AMLCheck \<Rightarrow> string \<Rightarrow> AMLCheck" where
  "MarkFailed now c errorMessage =
     c \<lparr> Status := StatusFailed, ErrorMessage := errorMessage, UpdatedAt := now \<rparr>"

definition IsExpired :: "time \<Rightarrow> AMLCheck \<Rightarrow> bool" where
  "IsExpired now c \<longleftrightarrow> ExpiresAt c < now"

section \<open>Errors\<close>

text \<open>
  Go errors: the two sentinels of the domain package, \<open>fmt.Errorf\<close> with a plain message,
  and \<open>fmt.Errorf\<close> with a \<open>%w\<close> verb, which wraps another error between a prefix and
  a suffix.
\<close>

datatype error =
    ErrInvalidAddress
  | ErrUnsupportedCurrency
  | Errorf string
  | Wrapf string error string

fun Error :: "error \<Rightarrow> string" where
  "Error ErrInvalidAddress = ''invalid address format''"
| "Error ErrUnsupportedCurrency = ''unsupported currency''"
| "Error (Errorf m) = m"
| "Error (Wrapf pre e post) = pre @ Error e @ post"

text \<open>\<open>errors.Is\<close>: the error itself or one it wraps.\<close>

fun Is :: "error \<Rightarrow> error \<Rightarrow> bool" where
  "Is (Wrapf pre e post) target \<longleftrightarrow> Wrapf pre e post = target \<or> Is e target"
| "Is e target \<longleftrightarrow> e = target"

section \<open>Check registry (infrastructure/repositories/memory_check_repository.go)\<close>

text \<open>
  The Go map from id to check is an association list with one entry per key; the mutex
  makes every operation atomic, so each is a function from the old registry to the new.
\<close>

type_synonym registry = "(string \<times> AMLCheck) list"

definition MemoryCheckRepository_Create :: "registry \<Rightarrow> AMLCheck \<Rightarrow> error option \<times> registry" where
  "MemoryCheckRepository_Create r check =
     (if map_of r (ID check) \<noteq> None then (Some (Errorf ''check already exists''), r)
      else (None, AList.update (ID check) check r))"

definition MemoryCheckRepository_Get :: "registry \<Rightarrow> string \<Rightarrow> AMLCheck option \<times> error option" where
  "MemoryCheckRepository_Get r checkID = (map_of r checkID, None)"

definition MemoryCheckRepository_Update :: "registry \<Rightarrow> AMLCheck \<Rightarrow> error option \<times> registry" where
  "MemoryCheckRepository_Update r check =
     (if map_of r (ID check) = None then (Some (Errorf ''check not found''), r)
      else (None, AList.update (ID check) check r))"

text \<open>
  The sweep ranges over the entries of the map, deleting the current entry and counting
  when \<open>now.After(check.ExpiresAt)\<close>.
\<close>

fun cleanup_loop :: "time \<Rightarrow> (string \<times> AMLCheck) list \<Rightarrow> registry \<Rightarrow> nat \<Rightarrow> nat \<times> registry" where
  "cleanup_loop now [] r count = (count, r)"
| "cleanup_loop now ((k, check) # es) r count =
     (if ExpiresAt check < now then cleanup_loop now es (AList.delete k r) (count + 1)
      else cleanup_loop now es r count)"

definition MemoryCheckRepository_CleanupExpired :: "registry \<Rightarrow> time \<Rightarrow> nat \<times> registry" where
  "MemoryCheckRepository_CleanupExpired r now = cleanup_loop now r r 0"

section \<open>Events (internal/domain/events.go)\<close>

definition EventAMLCheckRequested :: string where
  "EventAMLCheckRequested = ''aml.check.requested''"

definition EventAMLCheckCompleted :: string where
  "EventAMLCheckCompleted = ''aml.check.completed''"

definition EventAMLReportReady :: string where
  "EventAMLReportReady = ''aml.report.ready''"

definition EventAMLCheckFailed :: string where
  "EventAMLCheckFailed = ''aml.check.failed''"

text \<open>
  The payload field of an event (\<open>any\<close> in the source) is one of the four payload
  structs; the constructor arguments are the struct fields in the source's order.
\<close>

datatype Payload =
    AMLCheckRequestedPayload string string string
  | AMLCheckCompletedPayload string int RiskLevel "string list" "SanctionsResult option"
  | AMLReportReadyPayload string string
  | AMLCheckFailedPayload string string

record Event =
  ev_ID :: string
  ev_Type :: string
  ev_Timestamp :: time
  ev_Payload :: Payload

definition NewEvent :: "string \<Rightarrow> time \<Rightarrow> string \<Rightarrow> Payload \<Rightarrow> Event" where
  \<comment> \<open>\<open>eid\<close> is \<open>time.Now().Format("20060102150405.000000")\<close>, \<open>now\<close> is \<open>time.Now().UTC()\<close>.\<close>
  "NewEvent eid now eventType payload =
     \<lparr> ev_ID = eid, ev_Type = eventType, ev_Timestamp = now, ev_Payload = payload \<rparr>"

section \<open>Message bus (internal/infrastructure/rabbitmq)\<close>

text \<open>
  The AMQP library is outside the repository.  Of its types the model keeps the fields
  the bus reads or writes.  A header table maps names to dynamically typed values; the
  bus stores and reads \<open>int32\<close>, \<open>string\<close> and \<open>time.Time\<close> values.  A delivery carries
  the properties of the published message together with the exchange and routing key it
  came through.  The body is the published document; the bus never looks inside it.
\<close>

datatype amqp_value = VInt32 "32 word" | VString string | VTime time | VOther

type_synonym amqp_table = "(string \<times> amqp_value) list"

record 'b Publishing =
  Headers :: amqp_table
  ContentType :: string
  DeliveryMode :: nat
  Timestamp :: time
  Body :: 'b

record 'b Delivery = "'b Publishing" +
  Exchange :: string
  RoutingKey :: string

definition Persistent :: nat where
  "Persistent = 2"

definition zero_time :: time where
  \<comment> \<open>the zero \<open>time.Time\<close>, January 1 of year 1, which a field left out of a struct literal holds\<close>
  "zero_time = - 62135596800 * 1000000000"

definition ExchangeName :: string where
  "ExchangeName = ''aml.events''"

definition DLQExchangeName :: string where
  "DLQExchangeName = ''aml.dlq''"

definition MaxRetries :: "32 word" where
  "MaxRetries = 3"

text \<open>
  The channel is the log of the calls of \<open>PublishWithContext\<close>: exchange, routing key,
  message, and what the call returned (\<open>None\<close> when the broker accepted the message).
  Whether the broker accepts is decided outside the program, so the outcome is an
  argument.
\<close>

type_synonym 'b publish_call = "string \<times> string \<times> 'b Publishing \<times> error option"

type_synonym 'b channel = "'b publish_call list"

definition PublishWithContext ::
  "error option \<Rightarrow> 'b channel \<Rightarrow> string \<Rightarrow> string \<Rightarrow> 'b Publishing \<Rightarrow> error option \<times> 'b channel" where
  "PublishWithContext outcome ch exchange key msg = (outcome, ch @ [(exchange, key, msg, outcome)])"

definition RabbitMQBus_Publish ::
  "error option \<Rightarrow> Event channel \<Rightarrow> string \<Rightarrow> Event \<Rightarrow> error option \<times> Event channel" where
  \<comment> \<open>the body is the JSON document of the event, which \<open>json.Marshal\<close> always produces for
      these payloads\<close>
  "RabbitMQBus_Publish outcome ch routingKey event =
     (case PublishWithContext outcome ch ExchangeName routingKey
             \<lparr> Headers = [], ContentType = ''application/json'', DeliveryMode = Persistent,
               Timestamp = zero_time, Body = event \<rparr> of
        (Some err, ch') \<Rightarrow> (Some (Wrapf ''failed to publish event: '' err []), ch')
      | (None, ch') \<Rightarrow> (None, ch'))"

text \<open>
  Subscribe: what the consumer does with one delivery.  \<open>handled\<close> is what
  \<open>handler(msg.Body)\<close> returned and \<open>outcome\<close> what the broker answers to the publish
  made for this delivery.  The result is how the delivery is settled, \<open>msg.Ack(false)\<close>
  or \<open>msg.Nack(false, requeue)\<close>, and the channel afterwards.
\<close>

datatype disposition = Ack | Nack bool

definition Subscribe_handle ::
  "string \<Rightarrow> error option \<Rightarrow> error option \<Rightarrow> 'b channel \<Rightarrow> 'b Delivery
     \<Rightarrow> disposition \<times> 'b channel" where
  "Subscribe_handle queueName handled outcome ch msg =
     (case handled of
        None \<Rightarrow> (Ack, ch)
      | Some err \<Rightarrow>
          (let retryCount = (case map_of (Headers msg) ''x-retry-count'' of
                               Some (VInt32 count) \<Rightarrow> count
                             | _ \<Rightarrow> 0)
           in if sint retryCount \<ge> sint MaxRetries then
                (case PublishWithContext outcome ch DLQExchangeName []
                        \<lparr> Headers = [(''x-original-queue'', VString queueName),
                                      (''x-original-routing'', VString (RoutingKey msg)),
                                      (''x-retry-count'', VInt32 retryCount),
                                      (''x-last-error'', VString (Error err)),
                                      (''x-failed-timestamp'', VTime (Timestamp msg))],
                          ContentType = ContentType msg, DeliveryMode = Persistent,
                          Timestamp = zero_time, Body = Body msg \<rparr> of
                   (Some perr, ch') \<Rightarrow> (Nack False, ch')
                 | (None, ch') \<Rightarrow> (Ack, ch'))
              else
                (case PublishWithContext outcome ch ExchangeName (RoutingKey msg)
                        \<lparr> Headers = [(''x-retry-count'', VInt32 (retryCount + 1))],
                          ContentType = ContentType msg, DeliveryMode = Persistent,
                          Timestamp = zero_time, Body = Body msg \<rparr> of
                   (Some perr, ch') \<Rightarrow> (Nack True, ch')
                 | (None, ch') \<Rightarrow> (Ack, ch'))))"

text \<open>
  The consumer loop against the broker.  The broker is outside the program; the model
  keeps the one queue of the subscription, the channel and the log of settlements.  A
  message the broker accepted on the events exchange with a routing key the queue is
  bound to is appended to the queue with the properties it was published with; a message
  published to the dead-letter exchange goes to the dead-letter queue, which this consumer
  does not read.  An acknowledged or rejected delivery leaves the queue, a delivery
  returned with requeue stays at its head.  The loop handles one delivery per step of
  \<open>steps\<close>, each giving the handler's result and the broker's answer for that delivery,
  and stops when the steps are used up (cancellation) or the queue is empty.
\<close>

record 'b broker =
  queue :: "'b Delivery list"
  chan :: "'b channel"
  settled :: "disposition list"

definition route :: "string list \<Rightarrow> 'b publish_call list \<Rightarrow> 'b Delivery list" where
  "route routingKeys calls =
     map (\<lambda>(exchange, key, msg, outcome).
            \<lparr> Headers = Headers msg, ContentType = ContentType msg,
              DeliveryMode = DeliveryMode msg, Timestamp = Timestamp msg, Body = Body msg,
              Exchange = exchange, RoutingKey = key \<rparr>)
         (filter (\<lambda>(exchange, key, msg, outcome).
                    outcome = None \<and> exchange = ExchangeName \<and> key \<in> set routingKeys) calls)"

fun Subscribe_loop ::
  "string \<Rightarrow> string list \<Rightarrow> (error option \<times> error option) list \<Rightarrow> 'b broker \<Rightarrow> 'b broker" where
  "Subscribe_loop queueName routingKeys [] b = b"
| "Subscribe_loop queueName routingKeys ((handled, outcome) # steps) b =
     (case queue b of
        [] \<Rightarrow> b
      | msg # rest \<Rightarrow>
          (case Subscribe_handle queueName handled outcome (chan b) msg of
             (d, ch') \<Rightarrow>
               Subscribe_loop queueName routingKeys steps
                 \<lparr> queue = (if d = Nack True then msg # rest else rest)
                            @ route routingKeys (drop (length (chan b)) ch'),
                   chan = ch',
                   settled = settled b @ [d] \<rparr>))"

section \<open>Clock readings and number formatting\<close>

text \<open>
  \<open>Unix\<close> reads an instant in whole seconds.  \<open>Date\<close> is the calendar date of an instant
  in UTC, as \<open>t.Year()\<close>, \<open>t.Month()\<close> and \<open>t.Day()\<close> give it: the proleptic Gregorian
  date of the day that holds the instant.
\<close>

definition Unix :: "time \<Rightarrow> int" where
  "Unix t = t div 1000000000"

definition Date :: "time \<Rightarrow> int \<times> int \<times> int" where
  "Date t =
     (let z = Unix t div 86400 + 719468;
          era = z div 146097;
          doe = z mod 146097;
          yoe = (doe - doe div 1460 + doe div 36524 - doe div 146096) div 365;
          doy = doe - (365 * yoe + yoe div 4 - yoe div 100);
          mp = (5 * doy + 2) div 153;
          d = doy - (153 * mp + 2) div 5 + 1;
          m = (if mp < 10 then mp + 3 else mp - 9);
          y = yoe + era * 400 + (if m \<le> 2 then 1 else 0)
      in (y, m, d))"

definition Year :: "time \<Rightarrow> int" where
  "Year t = fst (Date t)"

definition Month :: "time \<Rightarrow> int" where
  "Month t = fst (snd (Date t))"

definition Day :: "time \<Rightarrow> int" where
  "Day t = snd (snd (Date t))"

text \<open>\<open>%d\<close> of \<open>fmt.Sprintf\<close>: decimal digits, with a minus sign for a negative number.\<close>

function show_nat :: "nat \<Rightarrow> string" where
  "show_nat n = (if n < 10 then [char_of (48 + n)] else show_nat (n div 10) @ [char_of (48 + n mod 10)])"
  by pat_completeness auto
termination
  by (relation "measure (\<lambda>n. n)") auto

declare show_nat.simps [simp del]

definition show_int :: "int \<Rightarrow> string" where
  "show_int i = (if i < 0 then CHR ''-'' # show_nat (nat (- i)) else show_nat (nat i))"

text \<open>\<open>%02d\<close>: at least two digits, padded with a zero.\<close>

definition show_int2 :: "int \<Rightarrow> string" where
  "show_int2 i = (if 0 \<le> i \<and> i < 10 then CHR ''0'' # show_int i else show_int i)"

section \<open>Report stores (internal/infrastructure/storage)\<close>

text \<open>
  The use case holds a \<open>ReportStorage\<close>, an interface with two implementations, of which
  the program wires one at start-up.  A store keeps, for each name it stores under, the
  bytes written and the expiry recorded with them.  \<open>write\<close> is what the write returned:
  \<open>os.WriteFile\<close> for the local store, \<open>PutObject\<close> for MinIO.  The local store keeps
  the report under its key; the MinIO store keeps it under an object key that starts with
  the date of the call.
\<close>

type_synonym storage = "(string \<times> string \<times> time) list"

datatype ReportStorage = LocalStorage | MinIOStorage

definition LocalStorage_Put ::
  "error option \<Rightarrow> time \<Rightarrow> storage \<Rightarrow> string \<Rightarrow> string \<Rightarrow> int \<Rightarrow> error option \<times> storage" where
  "LocalStorage_Put write now st key data ttl =
     (case write of
        Some err \<Rightarrow> (Some (Wrapf ''failed to write file: '' err []), st)
      | None \<Rightarrow> (None, AList.update key (data, now + ttl) st))"

definition objectKey :: "time \<Rightarrow> string \<Rightarrow> string" where
  \<comment> \<open>\<open>fmt.Sprintf("reports/%d/%02d/%02d/%s", now.Year(), now.Month(), now.Day(), key)\<close>\<close>
  "objectKey now key =
     ''reports/'' @ show_int (Year now) @ ''/'' @ show_int2 (Month now) @ ''/''
       @ show_int2 (Day now) @ ''/'' @ key"

definition MinIOStorage_Put ::
  "error option \<Rightarrow> time \<Rightarrow> storage \<Rightarrow> string \<Rightarrow> string \<Rightarrow> int \<Rightarrow> error option \<times> storage" where
  "MinIOStorage_Put write now st key data ttl =
     (case write of
        Some err \<Rightarrow> (Some (Wrapf ''failed to put object: '' err []), st)
      | None \<Rightarrow> (None, AList.update (objectKey now key) (data, now + ttl) st))"

fun ReportStorage_Put ::
  "ReportStorage \<Rightarrow> error option \<Rightarrow> time \<Rightarrow> storage \<Rightarrow> string \<Rightarrow> string \<Rightarrow> int
     \<Rightarrow> error option \<times> storage" where
  "ReportStorage_Put LocalStorage write now st key data ttl =
     LocalStorage_Put write now st key data ttl"
| "ReportStorage_Put MinIOStorage write now st key data ttl =
     MinIOStorage_Put write now st key data ttl"

section \<open>Environment and state of the use cases\<close>

text \<open>
  What a use case reads from outside the program in one execution: the clock, fresh
  identifiers, and the outcomes of the store write and of the broker publish.  The
  results of calls that leave the repository (the risk and sanctions providers, the PDF
  library behind \<open>GeneratePDF\<close>) are arguments of the use case that makes the call.
\<close>

record env =
  env_now :: time
  env_uuid :: string
  env_eventID :: string
  env_publish :: "error option"
  env_write :: "error option"

record world =
  w_registry :: registry
  w_storage :: storage
  w_channel :: "Event channel"

section \<open>Report worker use cases (internal/application)\<close>

text \<open>
  The registry holds pointers: \<open>Get\<close> returns the stored object itself, so \<open>MarkFailed\<close>
  and \<open>MarkCompleted\<close> change the record under the key it was read from before \<open>Update\<close>
  is called.  The model writes the marked record back under that key and then calls
  \<open>Update\<close>, which stores it under the record's own ID.
\<close>

definition HandleCheckFailedUseCase_Execute ::
  "time \<Rightarrow> world \<Rightarrow> string \<Rightarrow> string \<Rightarrow> error option \<times> world" where
  "HandleCheckFailedUseCase_Execute now w checkID errorMessage =
     (case MemoryCheckRepository_Get (w_registry w) checkID of
        (_, Some err) \<Rightarrow> (Some (Wrapf ''failed to get check: '' err []), w)
      | (None, None) \<Rightarrow> (Some (Errorf ''check not found''), w)
      | (Some check, None) \<Rightarrow>
          (let check' = MarkFailed now check errorMessage;
               r1 = AList.update checkID check' (w_registry w)
           in case MemoryCheckRepository_Update r1 check' of
                (Some err, r2) \<Rightarrow>
                  (Some (Wrapf ''failed to update check: '' err []), w \<lparr> w_registry := r2 \<rparr>)
              | (None, r2) \<Rightarrow> (None, w \<lparr> w_registry := r2 \<rparr>)))"

text \<open>
  \<open>reportStorage\<close> is the store the use case was built with.  \<open>pdf\<close> is what
  \<open>GeneratePDF\<close> returned for the check's address and currency and the event's fields.  The billing hook runs last and its error is only logged; it has no
  effect on the registry, the store or the bus.
\<close>

definition GenerateReportUseCase_Execute ::
  "ReportStorage \<Rightarrow> env \<Rightarrow> error + string \<Rightarrow> int \<Rightarrow> world \<Rightarrow> string \<Rightarrow> int \<Rightarrow> RiskLevel
     \<Rightarrow> string list \<Rightarrow> SanctionsResult option \<Rightarrow> error option \<times> world" where
  "GenerateReportUseCase_Execute reportStorage env pdf reportTTL w checkID riskScore riskLevel
       categories sanctions =
     (case MemoryCheckRepository_Get (w_registry w) checkID of
        (_, Some err) \<Rightarrow> (Some (Wrapf ''failed to get check: '' err []), w)
      | (None, None) \<Rightarrow> (Some (Errorf ''check not found''), w)
      | (Some check, None) \<Rightarrow>
          (case pdf of
             Inl err \<Rightarrow> (Some (Wrapf ''failed to generate pdf: '' err []), w)
           | Inr pdfData \<Rightarrow>
               if length pdfData < 1024 \<or> take 4 pdfData \<noteq> ''%PDF''
               then (Some (Errorf ''invalid pdf generated''), w)
               else
                 (let reportKey = checkID @ ''.pdf'' in
                  case ReportStorage_Put reportStorage (env_write env) (env_now env)
                         (w_storage w) reportKey pdfData reportTTL of
                    (Some err, st) \<Rightarrow>
                      (Some (Wrapf ''failed to store report: '' err []), w \<lparr> w_storage := st \<rparr>)
                  | (None, st) \<Rightarrow>
                      (let check' = MarkCompleted (env_now env) check riskScore riskLevel
                                      categories sanctions reportKey;
                           r1 = AList.update checkID check' (w_registry w)
                       in case MemoryCheckRepository_Update r1 check' of
                            (Some err, r2) \<Rightarrow>
                              (Some (Wrapf ''failed to update check: '' err []),
                               w \<lparr> w_registry := r2, w_storage := st \<rparr>)
                          | (None, r2) \<Rightarrow>
                              (let event = NewEvent (env_eventID env) (env_now env)
                                             EventAMLReportReady
                                             (AMLReportReadyPayload checkID reportKey);
                                   (perr, ch) = RabbitMQBus_Publish (env_publish env)
                                                  (w_channel w) EventAMLReportReady event
                               in (None, w \<lparr> w_registry := r2, w_storage := st,
                                             w_channel := ch \<rparr>))))))"

section \<open>Risk-assessment use case (internal/application/process_aml_check.go)\<close>

datatype AMLResult = AMLResult int RiskLevel "string list"

definition publishFailedEvent ::
  "env \<Rightarrow> Event channel \<Rightarrow> string \<Rightarrow> string \<Rightarrow> error option \<times> Event channel" where
  "publishFailedEvent env ch checkID errorMessage =
     (let event = NewEvent (env_eventID env) (env_now env) EventAMLCheckFailed
                    (AMLCheckFailedPayload checkID errorMessage)
      in case RabbitMQBus_Publish (env_publish env) ch EventAMLCheckFailed event of
           (Some err, ch') \<Rightarrow> (Some (Wrapf ''failed to publish failed event: '' err []), ch')
         | (None, ch') \<Rightarrow> (Some (Errorf errorMessage), ch'))"

text \<open>
  \<open>aml\<close> is what \<open>amlProvider.CheckAddress(address, currency)\<close> returned and \<open>sanctions\<close>
  what \<open>sanctionsProvider.CheckAddress(address)\<close> returns when it is called.
\<close>

definition ProcessAMLCheckUseCase_Execute ::
  "error + AMLResult \<Rightarrow> error + SanctionsResult \<Rightarrow> env
     \<Rightarrow> Event channel \<Rightarrow> string \<Rightarrow> string \<Rightarrow> string \<Rightarrow> error option \<times> Event channel" where
  "ProcessAMLCheckUseCase_Execute aml sanctions env ch checkID address currency =
     (case aml of
        Inl err \<Rightarrow> publishFailedEvent env ch checkID (''AML check failed: '' @ Error err)
      | Inr (AMLResult riskScore riskLevel categories) \<Rightarrow>
          (let sanctionsResult =
                 (case sanctions of
                    Inl err \<Rightarrow> \<lparr> Hit = False, Identifications = [] \<rparr>
                  | Inr res \<Rightarrow> res);
               event = NewEvent (env_eventID env) (env_now env) EventAMLCheckCompleted
                         (AMLCheckCompletedPayload checkID riskScore riskLevel categories
                            (Some sanctionsResult))
           in case RabbitMQBus_Publish (env_publish env) ch EventAMLCheckCompleted event of
                (Some err, ch') \<Rightarrow>
                  (Some (Wrapf ''failed to publish completed event: '' err []), ch')
              | (None, ch') \<Rightarrow> (None, ch')))"

section \<open>Assets (internal/domain/asset.go)\<close>

text \<open>
  Strings are byte strings.  \<open>strings.ToUpper\<close>, \<open>strings.ToLower\<close> and
  \<open>strings.TrimSpace\<close> belong to Go's standard library and follow Unicode tables; the
  asset code is modelled over any three such functions, passed in a record.
\<close>

record strings_pkg =
  ToUpper :: "string \<Rightarrow> string"
  ToLower :: "string \<Rightarrow> string"
  TrimSpace :: "string \<Rightarrow> string"

definition HasPrefix :: "string \<Rightarrow> string \<Rightarrow> bool" where
  "HasPrefix s prefix \<longleftrightarrow> take (length prefix) s = prefix"

definition char_between :: "char \<Rightarrow> char \<Rightarrow> char \<Rightarrow> bool" where
  "char_between lo hi c \<longleftrightarrow> (of_char lo :: nat) \<le> of_char c \<and> (of_char c :: nat) \<le> of_char hi"

text \<open>The three regular expressions, each anchored at both ends.\<close>

definition match_base58 :: "string \<Rightarrow> bool" where
  \<comment> \<open>\<open>^[13][a-km-zA-HJ-NP-Z1-9]{25,34}$\<close>\<close>
  "match_base58 address =
     (case address of
        [] \<Rightarrow> False
      | c # rest \<Rightarrow>
          (c = CHR ''1'' \<or> c = CHR ''3'') \<and> 25 \<le> length rest \<and> length rest \<le> 34
          \<and> list_all (\<lambda>x. char_between CHR ''a'' CHR ''k'' x \<or> char_between CHR ''m'' CHR ''z'' x
                         \<or> char_between CHR ''A'' CHR ''H'' x \<or> char_between CHR ''J'' CHR ''N'' x
                         \<or> char_between CHR ''P'' CHR ''Z'' x \<or> char_between CHR ''1'' CHR ''9'' x) rest)"

definition match_bech32 :: "string \<Rightarrow> bool" where
  \<comment> \<open>\<open>^bc1[a-z0-9]{39,59}$\<close>\<close>
  "match_bech32 address =
     (HasPrefix address ''bc1'' \<and> 39 \<le> length (drop 3 address) \<and> length (drop 3 address) \<le> 59
      \<and> list_all (\<lambda>x. char_between CHR ''a'' CHR ''z'' x \<or> char_between CHR ''0'' CHR ''9'' x)
           (drop 3 address))"

definition match_eth :: "string \<Rightarrow> bool" where
  \<comment> \<open>\<open>^0x[a-fA-F0-9]{40}$\<close>\<close>
  "match_eth address =
     (HasPrefix address ''0x'' \<and> length (drop 2 address) = 40
      \<and> list_all (\<lambda>x. char_between CHR ''a'' CHR ''f'' x \<or> char_between CHR ''A'' CHR ''F'' x
                     \<or> char_between CHR ''0'' CHR ''9'' x) (drop 2 address))"

datatype Asset = Bitcoin | Ethereum | USDT

fun Symbol :: "Asset \<Rightarrow> string" where
  "Symbol Bitcoin = ''BTC''"
| "Symbol Ethereum = ''ETH''"
| "Symbol USDT = ''USDT''"

fun Chain :: "Asset \<Rightarrow> string" where
  "Chain Bitcoin = ''bitcoin''"
| "Chain Ethereum = ''ethereum''"
| "Chain USDT = ''ethereum''"

definition Bitcoin_ValidateAddress :: "string \<Rightarrow> error option" where
  "Bitcoin_ValidateAddress address =
     (if address = [] then Some ErrInvalidAddress
      else if (HasPrefix address ''1'' \<or> HasPrefix address ''3'')
              \<and> length address \<ge> 26 \<and> length address \<le> 35 \<and> match_base58 address then None
      else if HasPrefix address ''bc1'' \<and> length address \<ge> 42 \<and> length address \<le> 62
              \<and> match_bech32 address then None
      else Some ErrInvalidAddress)"

definition Ethereum_ValidateAddress :: "string \<Rightarrow> error option" where
  "Ethereum_ValidateAddress address =
     (if address = [] then Some ErrInvalidAddress
      else if \<not> match_eth address then Some ErrInvalidAddress
      else None)"

definition USDT_ValidateAddress :: "string \<Rightarrow> error option" where
  "USDT_ValidateAddress address = Ethereum_ValidateAddress address"

definition Bitcoin_NormalizeAddress :: "strings_pkg \<Rightarrow> string \<Rightarrow> string" where
  "Bitcoin_NormalizeAddress lib address = TrimSpace lib address"

definition Ethereum_NormalizeAddress :: "strings_pkg \<Rightarrow> string \<Rightarrow> string" where
  "Ethereum_NormalizeAddress lib address = ToLower lib (TrimSpace lib address)"

definition USDT_NormalizeAddress :: "strings_pkg \<Rightarrow> string \<Rightarrow> string" where
  "USDT_NormalizeAddress lib address = Ethereum_NormalizeAddress lib address"

text \<open>The \<open>Asset\<close> interface: each method dispatches on the implementing type.\<close>

fun ValidateAddress :: "Asset \<Rightarrow> string \<Rightarrow> error option" where
  "ValidateAddress Bitcoin address = Bitcoin_ValidateAddress address"
| "ValidateAddress Ethereum address = Ethereum_ValidateAddress address"
| "ValidateAddress USDT address = USDT_ValidateAddress address"

fun NormalizeAddress :: "strings_pkg \<Rightarrow> Asset \<Rightarrow> string \<Rightarrow> string" where
  "NormalizeAddress lib Bitcoin address = Bitcoin_NormalizeAddress lib address"
| "NormalizeAddress lib Ethereum address = Ethereum_NormalizeAddress lib address"
| "NormalizeAddress lib USDT address = USDT_NormalizeAddress lib address"

type_synonym DefaultAssetRegistry = "(string \<times> Asset) list"

definition register :: "DefaultAssetRegistry \<Rightarrow> Asset \<Rightarrow> DefaultAssetRegistry" where
  "register assets asset = AList.update (Symbol asset) asset assets"

definition NewDefaultAssetRegistry :: DefaultAssetRegistry where
  "NewDefaultAssetRegistry = register (register (register [] Bitcoin) Ethereum) USDT"

definition DefaultAssetRegistry_Get ::
  "strings_pkg \<Rightarrow> DefaultAssetRegistry \<Rightarrow> string \<Rightarrow> error + Asset" where
  "DefaultAssetRegistry_Get lib assets symbol =
     (case map_of assets (ToUpper lib symbol) of
        None \<Rightarrow> Inl (Wrapf [] ErrUnsupportedCurrency ('': '' @ symbol))
      | Some asset \<Rightarrow> Inr asset)"

section \<open>Intake (CheckAddressUseCase)\<close>

definition CheckAddressUseCase_Execute ::
  "strings_pkg \<Rightarrow> DefaultAssetRegistry \<Rightarrow> int \<Rightarrow> env \<Rightarrow> world \<Rightarrow> string \<Rightarrow> string
     \<Rightarrow> (error + string) \<times> world" where
  "CheckAddressUseCase_Execute lib assetRegistry checkTTL env w address currency =
     (case DefaultAssetRegistry_Get lib assetRegistry currency of
        Inl err \<Rightarrow> (Inl err, w)
      | Inr asset \<Rightarrow>
          (let normalizedAddress = NormalizeAddress lib asset address in
           case ValidateAddress asset normalizedAddress of
             Some err \<Rightarrow> (Inl (Wrapf ''invalid address: '' err []), w)
           | None \<Rightarrow>
               (let check = NewAMLCheck (env_uuid env) (env_now env) normalizedAddress
                              (Symbol asset) checkTTL in
                case MemoryCheckRepository_Create (w_registry w) check of
                  (Some err, r) \<Rightarrow>
                    (Inl (Wrapf ''failed to create check: '' err []), w \<lparr> w_registry := r \<rparr>)
                | (None, r) \<Rightarrow>
                    (let event = NewEvent (env_eventID env) (env_now env) EventAMLCheckRequested
                                   (AMLCheckRequestedPayload (ID check) normalizedAddress
                                      (Symbol asset)) in
                     case RabbitMQBus_Publish (env_publish env) (w_channel w)
                            EventAMLCheckRequested event of
                       (Some err, ch) \<Rightarrow>
                         (Inl (Wrapf ''failed to publish event: '' err []),
                          w \<lparr> w_registry := r, w_channel := ch \<rparr>)
                     | (None, ch) \<Rightarrow>
                         (Inr (ID check), w \<lparr> w_registry := r, w_channel := ch \<rparr>)))))"

section \<open>Standard-library functions used by the token\<close>

text \<open>
  \<open>strings.SplitN(s, sep, 2)\<close> with a one-byte separator: the whole string when the
  separator does not occur, else the parts before and after its first occurrence.
\<close>

definition SplitN2 :: "string \<Rightarrow> char \<Rightarrow> string list" where
  "SplitN2 s sep =
     (if sep \<in> set s then [takeWhile (\<lambda>c. c \<noteq> sep) s, tl (dropWhile (\<lambda>c. c \<noteq> sep) s)]
      else [s])"

text \<open>
  \<open>strconv.ParseInt(s, 10, 64)\<close>: an optional sign and at least one decimal digit, nothing
  else, and a value that fits in 64 bits.
\<close>

definition digit_val :: "char \<Rightarrow> nat option" where
  "digit_val c = (if char_between CHR ''0'' CHR ''9'' c then Some (of_char c - 48) else None)"

fun parse_digits :: "nat \<Rightarrow> string \<Rightarrow> nat option" where
  "parse_digits acc [] = Some acc"
| "parse_digits acc (c # cs) =
     (case digit_val c of None \<Rightarrow> None | Some d \<Rightarrow> parse_digits (acc * 10 + d) cs)"

definition ParseInt :: "string \<Rightarrow> error + int" where
  "ParseInt s =
     (let neg = (s \<noteq> [] \<and> hd s = CHR ''-'');
          ds = (if s \<noteq> [] \<and> (hd s = CHR ''+'' \<or> hd s = CHR ''-'') then tl s else s)
      in if ds = [] then Inl (Errorf ''invalid syntax'')
         else case parse_digits 0 ds of
                None \<Rightarrow> Inl (Errorf ''invalid syntax'')
              | Some n \<Rightarrow>
                  (let v = (if neg then - int n else int n)
                   in if v < - (2 ^ 63) \<or> 2 ^ 63 \<le> v then Inl (Errorf ''value out of range'')
                      else Inr v))"

text \<open>
  \<open>base64.URLEncoding\<close>, with padding.  The alphabet is \<open>A-Z a-z 0-9 - _\<close>, written here
  by position.  The decoder skips carriage returns and line feeds, wants whole groups of
  four characters with \<open>=\<close> only as padding of the last group, and does not check the
  unused bits of a padded group.
\<close>

definition b64_char :: "nat \<Rightarrow> char" where
  "b64_char n =
     (if n < 26 then char_of (65 + n)
      else if n < 52 then char_of (97 + (n - 26))
      else if n < 62 then char_of (48 + (n - 52))
      else if n = 62 then CHR ''-'' else CHR ''_'')"

definition b64_index :: "char \<Rightarrow> nat option" where
  "b64_index c =
     (if char_between CHR ''A'' CHR ''Z'' c then Some (of_char c - 65)
      else if char_between CHR ''a'' CHR ''z'' c then Some (of_char c - 97 + 26)
      else if char_between CHR ''0'' CHR ''9'' c then Some (of_char c - 48 + 52)
      else if c = CHR ''-'' then Some 62
      else if c = CHR ''_'' then Some 63
      else None)"

fun EncodeToString :: "string \<Rightarrow> string" where
  "EncodeToString [] = []"
| "EncodeToString [a] =
     [b64_char (of_char a div 4), b64_char (of_char a mod 4 * 16), CHR ''='', CHR ''='']"
| "EncodeToString [a, b] =
     [b64_char (of_char a div 4), b64_char (of_char a mod 4 * 16 + of_char b div 16),
      b64_char (of_char b mod 16 * 4), CHR ''='']"
| "EncodeToString (a # b # c # rest) =
     [b64_char (of_char a div 4), b64_char (of_char a mod 4 * 16 + of_char b div 16),
      b64_char (of_char b mod 16 * 4 + of_char c div 64), b64_char (of_char c mod 64)]
     @ EncodeToString rest"

fun decode_groups :: "string \<Rightarrow> error + string" where
  "decode_groups [] = Inr []"
| "decode_groups (c1 # c2 # c3 # c4 # rest) =
     (case (b64_index c1, b64_index c2) of
        (Some i1, Some i2) \<Rightarrow>
          (if c3 = CHR ''='' then
             (if c4 = CHR ''='' \<and> rest = [] then Inr [char_of (i1 * 4 + i2 div 16)]
              else Inl (Errorf ''illegal base64 data''))
           else case b64_index c3 of
                  None \<Rightarrow> Inl (Errorf ''illegal base64 data'')
                | Some i3 \<Rightarrow>
                    (if c4 = CHR ''='' then
                       (if rest = []
                        then Inr [char_of (i1 * 4 + i2 div 16), char_of (i2 mod 16 * 16 + i3 div 4)]
                        else Inl (Errorf ''illegal base64 data''))
                     else case b64_index c4 of
                            None \<Rightarrow> Inl (Errorf ''illegal base64 data'')
                          | Some i4 \<Rightarrow>
                              (case decode_groups rest of
                                 Inl err \<Rightarrow> Inl err
                               | Inr bytes \<Rightarrow>
                                   Inr (char_of (i1 * 4 + i2 div 16)
                                        # char_of (i2 mod 16 * 16 + i3 div 4)
                                        # char_of (i3 mod 4 * 64 + i4) # bytes))))
      | _ \<Rightarrow> Inl (Errorf ''illegal base64 data''))"
| "decode_groups _ = Inl (Errorf ''illegal base64 data'')"

definition DecodeString :: "string \<Rightarrow> error + string" where
  "DecodeString s = decode_groups (filter (\<lambda>c. c \<noteq> char_of (13::nat) \<and> c \<noteq> char_of (10::nat)) s)"

section \<open>Signed report token (internal/infrastructure/token/hmac.go)\<close>

text \<open>
  HMAC-SHA256 comes from Go's crypto packages: \<open>mac secret message\<close> stands for the tag
  \<open>hmac.New(sha256.New, secret)\<close> computes over \<open>message\<close>, and the token code is modelled
  over any such function.
\<close>

definition HMACToken_Sign ::
  "(string \<Rightarrow> string \<Rightarrow> string) \<Rightarrow> string \<Rightarrow> time \<Rightarrow> string \<Rightarrow> int \<Rightarrow> string" where
  "HMACToken_Sign mac secret now key expires =
     (let expiresAt = Unix (now + expires);
          payload = key @ '':'' @ show_int expiresAt;
          encodedPayload = EncodeToString payload;
          signature = EncodeToString (mac secret encodedPayload)
      in encodedPayload @ ''.'' @ signature)"

definition HMACToken_Verify ::
  "(string \<Rightarrow> string \<Rightarrow> string) \<Rightarrow> string \<Rightarrow> time \<Rightarrow> string \<Rightarrow> error + string" where
  "HMACToken_Verify mac secret now token =
     (case SplitN2 token CHR ''.'' of
        [encodedPayload, providedSig] \<Rightarrow>
          (let expectedSig = EncodeToString (mac secret encodedPayload)
           in if providedSig \<noteq> expectedSig then Inl (Errorf ''invalid token signature'')
              else case DecodeString encodedPayload of
                     Inl err \<Rightarrow> Inl (Wrapf ''invalid token encoding: '' err [])
                   | Inr payload \<Rightarrow>
                       (case SplitN2 payload CHR '':'' of
                          [key, expiry] \<Rightarrow>
                            (case ParseInt expiry of
                               Inl err \<Rightarrow> Inl (Errorf ''invalid expiration time'')
                             | Inr expiresAt \<Rightarrow>
                                 if Unix now > expiresAt then Inl (Errorf ''token expired'')
                                 else Inr key)
                        | _ \<Rightarrow> Inl (Errorf ''invalid token payload'')))
      | _ \<Rightarrow> Inl (Errorf ''invalid token format''))"

text \<open>
  The keys the program signs are report keys: the download handler signs the \<open>ReportKey\<close>
  of a check (handlers.go), which \<open>GenerateReportUseCase.Execute\<close> writes as the check id
  followed by \<open>.pdf\<close>, and the check id is the \<open>uuid.New().String()\<close> of \<open>NewAMLCheck\<close>.
  The uuid package prints an identifier as 32 lower-case hexadecimal digits in groups of
  8, 4, 4, 4 and 12 separated by hyphens.
\<close>

definition is_uuid :: "string \<Rightarrow> bool" where
  "is_uuid s \<longleftrightarrow>
     length s = 36
     \<and> list_all (\<lambda>(i, c). if i \<in> {8, 13, 18, 23 :: nat} then c = CHR ''-''
                         else char_between CHR ''0'' CHR ''9'' c \<or> char_between CHR ''a'' CHR ''f'' c)
          (zip [0 ..< 36] s)"

definition is_report_key :: "string \<Rightarrow> bool" where
  "is_report_key key \<longleftrightarrow> is_uuid (take 36 key) \<and> drop 36 key = ''.pdf''"

section \<open>Status query (GetCheckStatusUseCase)\<close>

definition GetCheckStatusUseCase_Execute :: "time \<Rightarrow> registry \<Rightarrow> string \<Rightarrow> error + AMLCheck" where
  "GetCheckStatusUseCase_Execute now r checkID =
     (case MemoryCheckRepository_Get r checkID of
        (_, Some err) \<Rightarrow> Inl (Wrapf ''failed to get check: '' err [])
      | (None, None) \<Rightarrow> Inl (Errorf ''check not found'')
      | (Some check, None) \<Rightarrow>
          if IsExpired now check then Inl (Errorf ''check expired'') else Inr check)"

section \<open>HTTP handlers (internal/transport/http)\<close>

text \<open>
  A response is the status code and the JSON document written.  The three documents are
  the structs of dto.go, with the fields in the source's order.
\<close>

datatype SanctionsIdentificationDTO = SanctionsIdentificationDTO string string string

datatype SanctionsResponseDTO = SanctionsResponseDTO bool "SanctionsIdentificationDTO list"

datatype response_body =
    CheckAddressResponse string int string "string list" SanctionsResponseDTO string
  | CheckAddressAcceptedResponse string string string
  | ErrorResponse string

type_synonym response = "nat \<times> response_body"

definition StatusOK :: nat where
  "StatusOK = 200"

definition StatusAccepted :: nat where
  "StatusAccepted = 202"

definition StatusBadRequest :: nat where
  "StatusBadRequest = 400"

definition StatusNotFound :: nat where
  "StatusNotFound = 404"

definition StatusGone :: nat where
  "StatusGone = 410"

definition StatusInternalServerError :: nat where
  "StatusInternalServerError = 500"

definition StatusBadGateway :: nat where
  "StatusBadGateway = 502"

definition Hour :: int where
  "Hour = 3600 * 1000000000"

definition ToSanctionsDTO :: "SanctionsResult option \<Rightarrow> SanctionsResponseDTO" where
  "ToSanctionsDTO sanctions =
     (case sanctions of
        None \<Rightarrow> SanctionsResponseDTO False []
      | Some res \<Rightarrow>
          SanctionsResponseDTO (Hit res)
            (map (\<lambda>ident. SanctionsIdentificationDTO (Category ident) (Name ident) (URL ident))
               (Identifications res)))"

text \<open>\<open>strings.Contains\<close>.\<close>

fun Contains :: "string \<Rightarrow> string \<Rightarrow> bool" where
  "Contains [] substr \<longleftrightarrow> substr = []"
| "Contains (c # cs) substr \<longleftrightarrow> HasPrefix (c # cs) substr \<or> Contains cs substr"

record Handlers =
  tokenSecret :: string
  checkWaitSeconds :: int
  apiURL :: string

definition respondJSON :: "nat \<Rightarrow> response_body \<Rightarrow> response" where
  "respondJSON status data = (status, data)"

definition respondError :: "nat \<Rightarrow> string \<Rightarrow> response" where
  "respondError status message = respondJSON status (ErrorResponse message)"

definition respondCheckResult ::
  "(string \<Rightarrow> string \<Rightarrow> string) \<Rightarrow> Handlers \<Rightarrow> time \<Rightarrow> AMLCheck \<Rightarrow> response" where
  "respondCheckResult mac h now check =
     (let token = HMACToken_Sign mac (tokenSecret h) now (ReportKey check) (24 * Hour);
          pdfURL = apiURL h @ ''/v1/report/'' @ token
      in respondJSON StatusOK
           (CheckAddressResponse ''success'' (RiskScore check) (RiskLevel check) (Categories check)
              (ToSanctionsDTO (Sanctions check)) pdfURL))"

definition Handlers_GetCheckStatus ::
  "(string \<Rightarrow> string \<Rightarrow> string) \<Rightarrow> Handlers \<Rightarrow> time \<Rightarrow> registry \<Rightarrow> string \<Rightarrow> response" where
  "Handlers_GetCheckStatus mac h now r checkID =
     (if checkID = [] then respondError StatusBadRequest ''check_id is required''
      else case GetCheckStatusUseCase_Execute now r checkID of
             Inl err \<Rightarrow>
               if Contains (Error err) ''not found''
               then respondError StatusNotFound ''check not found''
               else if Contains (Error err) ''expired''
               then respondError StatusGone ''check expired''
               else respondError StatusInternalServerError ''failed to get check status''
           | Inr check \<Rightarrow>
               if Status check = StatusProcessing
               then respondJSON StatusAccepted
                      (CheckAddressAcceptedResponse ''processing'' ''Check is being processed.''
                         (apiURL h @ ''/v1/check-address/'' @ checkID))
               else if Status check = StatusFailed
               then respondError StatusInternalServerError
                      (''check failed: '' @ ErrorMessage check)
               else respondCheckResult mac h now check)"

text \<open>
  The bounded wait of CheckAddress, after the intake has returned \<open>checkID\<close>.  Each round
  of the loop selects either the ticker or the end of the wait.  \<open>polls\<close> lists the
  rounds in which the ticker was selected before the wait ended, each with the clock and
  the registry as the status query found them in that round; with the rounds used up, the
  wait has ended.  The wait lasts \<open>checkWaitSeconds\<close> seconds and the ticker has a period
  of half a second, which bounds the number of polls.
\<close>

fun CheckAddress_wait ::
  "(string \<Rightarrow> string \<Rightarrow> string) \<Rightarrow> Handlers \<Rightarrow> string \<Rightarrow> (time \<times> registry) list \<Rightarrow> response" where
  "CheckAddress_wait mac h checkID [] =
     respondJSON StatusAccepted
       (CheckAddressAcceptedResponse ''processing''
          ''Check is being processed. Use the poll_url to check status.''
          (apiURL h @ ''/v1/check-address/'' @ checkID))"
| "CheckAddress_wait mac h checkID ((now, r) # polls) =
     (case GetCheckStatusUseCase_Execute now r checkID of
        Inl err \<Rightarrow> CheckAddress_wait mac h checkID polls
      | Inr check \<Rightarrow>
          if Status check = StatusCompleted then respondCheckResult mac h now check
          else if Status check = StatusFailed
          then respondError StatusBadGateway (''AML check failed: '' @ ErrorMessage check)
          else CheckAddress_wait mac h checkID polls)"

section \<open>An ASCII instance of the string functions\<close>

text \<open>
  On ASCII input the three library functions act as follows; this instance is used to run
  the intake on concrete inputs.
\<close>

definition ascii_ToUpper :: "string \<Rightarrow> string" where
  "ascii_ToUpper s =
     map (\<lambda>c. if char_between CHR ''a'' CHR ''z'' c then char_of (of_char c - (32::nat)) else c) s"

definition ascii_ToLower :: "string \<Rightarrow> string" where
  "ascii_ToLower s =
     map (\<lambda>c. if char_between CHR ''A'' CHR ''Z'' c then char_of (of_char c + (32::nat)) else c) s"

definition ascii_space :: "char \<Rightarrow> bool" where
  "ascii_space c \<longleftrightarrow> c = CHR '' '' \<or> char_between (char_of (9::nat)) (char_of (13::nat)) c"

definition ascii_TrimSpace :: "string \<Rightarrow> string" where
  "ascii_TrimSpace s = rev (dropWhile ascii_space (rev (dropWhile ascii_space s)))"

definition ascii_strings :: strings_pkg where
  "ascii_strings =
     \<lparr> ToUpper = ascii_ToUpper, ToLower = ascii_ToLower, TrimSpace = ascii_TrimSpace \<rparr>"

section \<open>Risk level\<close>

text \<open>
  C9.  The risk level is a function of the score alone: below 30 Low, 30 to 59 Medium,
  60 to 79 High, 80 and above Critical, each lower bound included, and the four levels
  are different values.
\<close>

theorem DeriveRiskLevel_bands:
  "(score < 30 \<longrightarrow> DeriveRiskLevel score = RiskLevelLow)
   \<and> (30 \<le> score \<and> score \<le> 59 \<longrightarrow> DeriveRiskLevel score = RiskLevelMedium)
   \<and> (60 \<le> score \<and> score \<le> 79 \<longrightarrow> DeriveRiskLevel score = RiskLevelHigh)
   \<and> (80 \<le> score \<longrightarrow> DeriveRiskLevel score = RiskLevelCritical)
   \<and> DeriveRiskLevel 30 = RiskLevelMedium
   \<and> DeriveRiskLevel 60 = RiskLevelHigh
   \<and> DeriveRiskLevel 80 = RiskLevelCritical
   \<and> distinct [RiskLevelLow, RiskLevelMedium, RiskLevelHigh, RiskLevelCritical]"
  by (simp add: DeriveRiskLevel_def RiskLevelLow_def RiskLevelMedium_def
      RiskLevelHigh_def RiskLevelCritical_def)

theorem DeriveRiskLevel_bands_witness:
  "DeriveRiskLevel 29 = RiskLevelLow \<and> DeriveRiskLevel 59 = RiskLevelMedium
   \<and> DeriveRiskLevel 79 = RiskLevelHigh \<and> DeriveRiskLevel 100 = RiskLevelCritical"
  using DeriveRiskLevel_bands [of 29] DeriveRiskLevel_bands [of 59]
    DeriveRiskLevel_bands [of 79] DeriveRiskLevel_bands [of 100]
  by simp


section \<open>Registry: frame and expiry sweep\<close>

lemma cleanup_loop_count:
  "fst (cleanup_loop now es r n) = n + length (filter (\<lambda>e. ExpiresAt (snd e) < now) es)"
  by (induction es arbitrary: r n) auto

lemma cleanup_loop_lookup:
  "map_of (snd (cleanup_loop now es r n)) k =
     (if \<exists>c. (k, c) \<in> set es \<and> ExpiresAt c < now then None else map_of r k)"
proof (induction es arbitrary: r n)
  case Nil
  then show ?case by simp
next
  case (Cons e es)
  obtain k' c' where e: "e = (k', c')" by (cases e)
  show ?case
  proof (cases "ExpiresAt c' < now")
    case True
    then show ?thesis using Cons.IH [of "AList.delete k' r" "n + 1"] e
      by (auto simp: delete_conv)
  next
    case False
    then show ?thesis using Cons.IH [of r n] e by auto
  qed
qed

lemma cleanup_loop_distinct:
  "distinct (map fst r) \<Longrightarrow> distinct (map fst (snd (cleanup_loop now es r n)))"
  by (induction es arbitrary: r n) (auto simp: distinct_delete)

lemma expired_keys:
  assumes "distinct (map fst r)"
  shows "(\<exists>c. (k, c) \<in> set r \<and> ExpiresAt c < now)
         = (\<exists>c. map_of r k = Some c \<and> ExpiresAt c < now)"
  using assms by (auto dest: map_of_SomeD)

lemma expired_key_set:
  assumes "distinct (map fst r)"
  shows "fst ` set (filter (\<lambda>e. ExpiresAt (snd e) < now) r)
         = {k. \<exists>c. map_of r k = Some c \<and> ExpiresAt c < now}"
  using assms by (force simp: image_iff dest: map_of_SomeD)

lemma expired_card:
  assumes "distinct (map fst r)"
  shows "card {k. \<exists>c. map_of r k = Some c \<and> ExpiresAt c < now}
         = length (filter (\<lambda>e. ExpiresAt (snd e) < now) r)"
proof -
  have d: "distinct (map fst (filter (\<lambda>e. ExpiresAt (snd e) < now) r))"
    using assms by (simp add: distinct_map_filter)
  have "card (fst ` set (filter (\<lambda>e. ExpiresAt (snd e) < now) r))
        = length (filter (\<lambda>e. ExpiresAt (snd e) < now) r)"
    using distinct_card [OF d] by simp
  then show ?thesis using expired_key_set [OF assms, of now] by simp
qed

text \<open>
  C10.  Create and Update touch only the entry named by the argument's ID: the record
  stored under any other id is the same afterwards.  Create fails exactly when the id is
  present and Update exactly when it is absent, and a failing call returns the registry
  it was given.
\<close>

theorem Create_Update_frame:
  "(k \<noteq> ID check \<longrightarrow>
      map_of (snd (MemoryCheckRepository_Create r check)) k = map_of r k
      \<and> map_of (snd (MemoryCheckRepository_Update r check)) k = map_of r k)
   \<and> (fst (MemoryCheckRepository_Create r check) \<noteq> None \<longleftrightarrow> map_of r (ID check) \<noteq> None)
   \<and> (fst (MemoryCheckRepository_Create r check) \<noteq> None \<longrightarrow>
        snd (MemoryCheckRepository_Create r check) = r)
   \<and> (fst (MemoryCheckRepository_Update r check) \<noteq> None \<longleftrightarrow> map_of r (ID check) = None)
   \<and> (fst (MemoryCheckRepository_Update r check) \<noteq> None \<longrightarrow>
        snd (MemoryCheckRepository_Update r check) = r)"
  by (simp add: MemoryCheckRepository_Create_def MemoryCheckRepository_Update_def update_conv)

theorem Create_Update_frame_witness:
  "map_of (snd (MemoryCheckRepository_Create
        [(''a'', NewAMLCheck ''a'' 0 ''x'' ''BTC'' 9)] (NewAMLCheck ''b'' 1 ''y'' ''ETH'' 9))) ''a''
     = Some (NewAMLCheck ''a'' 0 ''x'' ''BTC'' 9)
   \<and> map_of (snd (MemoryCheckRepository_Update
        [(''a'', NewAMLCheck ''a'' 0 ''x'' ''BTC'' 9), (''b'', NewAMLCheck ''b'' 1 ''y'' ''ETH'' 9)]
        (NewAMLCheck ''b'' 2 ''z'' ''ETH'' 9))) ''a''
     = Some (NewAMLCheck ''a'' 0 ''x'' ''BTC'' 9)
   \<and> MemoryCheckRepository_Create
        [(''a'', NewAMLCheck ''a'' 0 ''x'' ''BTC'' 9)] (NewAMLCheck ''a'' 1 ''y'' ''ETH'' 9)
     = (Some (Errorf ''check already exists''), [(''a'', NewAMLCheck ''a'' 0 ''x'' ''BTC'' 9)])
   \<and> MemoryCheckRepository_Update
        [(''a'', NewAMLCheck ''a'' 0 ''x'' ''BTC'' 9)] (NewAMLCheck ''b'' 1 ''y'' ''ETH'' 9)
     = (Some (Errorf ''check not found''), [(''a'', NewAMLCheck ''a'' 0 ''x'' ''BTC'' 9)])"
  using
    Create_Update_frame [of "''a''" "NewAMLCheck ''b'' 1 ''y'' ''ETH'' 9"
      "[(''a'', NewAMLCheck ''a'' 0 ''x'' ''BTC'' 9)]"]
    Create_Update_frame [of "''a''" "NewAMLCheck ''b'' 2 ''z'' ''ETH'' 9"
      "[(''a'', NewAMLCheck ''a'' 0 ''x'' ''BTC'' 9), (''b'', NewAMLCheck ''b'' 1 ''y'' ''ETH'' 9)]"]
    Create_Update_frame [of "''a''" "NewAMLCheck ''a'' 1 ''y'' ''ETH'' 9"
      "[(''a'', NewAMLCheck ''a'' 0 ''x'' ''BTC'' 9)]"]
    Create_Update_frame [of "''a''" "NewAMLCheck ''b'' 1 ''y'' ''ETH'' 9"
      "[(''a'', NewAMLCheck ''a'' 0 ''x'' ''BTC'' 9)]"]
  by (simp add: NewAMLCheck_def MemoryCheckRepository_Create_def MemoryCheckRepository_Update_def)

text \<open>
  C4, as the code has it.  The sweep removes exactly the records whose ExpiresAt is
  strictly before \<open>now\<close> and returns how many it removed; every other record, one
  whose ExpiresAt equals \<open>now\<close> included, stays as it was.
\<close>

theorem CleanupExpired_removes_strictly_expired:
  assumes "distinct (map fst r)"
  shows "(\<forall>k. map_of (snd (MemoryCheckRepository_CleanupExpired r now)) k =
            (case map_of r k of None \<Rightarrow> None
             | Some c \<Rightarrow> if ExpiresAt c < now then None else Some c))
       \<and> fst (MemoryCheckRepository_CleanupExpired r now)
           = card {k. \<exists>c. map_of r k = Some c \<and> ExpiresAt c < now}
       \<and> distinct (map fst (snd (MemoryCheckRepository_CleanupExpired r now)))"
proof -
  have "\<And>k. (\<exists>c. (k, c) \<in> set r \<and> ExpiresAt c < now)
          = (\<exists>c. map_of r k = Some c \<and> ExpiresAt c < now)"
    using expired_keys [OF assms] by blast
  then have 1: "\<forall>k. map_of (snd (MemoryCheckRepository_CleanupExpired r now)) k =
            (case map_of r k of None \<Rightarrow> None
             | Some c \<Rightarrow> if ExpiresAt c < now then None else Some c)"
    by (auto simp: MemoryCheckRepository_CleanupExpired_def cleanup_loop_lookup split: option.splits)
  have 2: "fst (MemoryCheckRepository_CleanupExpired r now)
           = card {k. \<exists>c. map_of r k = Some c \<and> ExpiresAt c < now}"
    by (simp add: MemoryCheckRepository_CleanupExpired_def cleanup_loop_count expired_card [OF assms])
  have 3: "distinct (map fst (snd (MemoryCheckRepository_CleanupExpired r now)))"
    by (simp add: MemoryCheckRepository_CleanupExpired_def cleanup_loop_distinct assms)
  from 1 2 3 show ?thesis by blast
qed

theorem CleanupExpired_removes_strictly_expired_witness:
  "distinct (map fst [(''a'', NewAMLCheck ''a'' 0 ''x'' ''BTC'' 3),
                      (''b'', NewAMLCheck ''b'' 0 ''y'' ''ETH'' 5),
                      (''c'', NewAMLCheck ''c'' 0 ''z'' ''ETH'' 9)])
   \<and> map_of (snd (MemoryCheckRepository_CleanupExpired
         [(''a'', NewAMLCheck ''a'' 0 ''x'' ''BTC'' 3),
          (''b'', NewAMLCheck ''b'' 0 ''y'' ''ETH'' 5),
          (''c'', NewAMLCheck ''c'' 0 ''z'' ''ETH'' 9)] 5)) ''a'' = None
   \<and> map_of (snd (MemoryCheckRepository_CleanupExpired
         [(''a'', NewAMLCheck ''a'' 0 ''x'' ''BTC'' 3),
          (''b'', NewAMLCheck ''b'' 0 ''y'' ''ETH'' 5),
          (''c'', NewAMLCheck ''c'' 0 ''z'' ''ETH'' 9)] 5)) ''b''
       = Some (NewAMLCheck ''b'' 0 ''y'' ''ETH'' 5)
   \<and> fst (MemoryCheckRepository_CleanupExpired
         [(''a'', NewAMLCheck ''a'' 0 ''x'' ''BTC'' 3),
          (''b'', NewAMLCheck ''b'' 0 ''y'' ''ETH'' 5),
          (''c'', NewAMLCheck ''c'' 0 ''z'' ''ETH'' 9)] 5) = 1"
proof -
  let ?r = "[(''a'', NewAMLCheck ''a'' 0 ''x'' ''BTC'' 3),
             (''b'', NewAMLCheck ''b'' 0 ''y'' ''ETH'' 5),
             (''c'', NewAMLCheck ''c'' 0 ''z'' ''ETH'' 9)]"
  have d: "distinct (map fst ?r)" by simp
  have "{k. \<exists>c. map_of ?r k = Some c \<and> ExpiresAt c < 5} = {''a''}"
    by (auto simp: NewAMLCheck_def split: if_splits)
  then show ?thesis
    using d CleanupExpired_removes_strictly_expired [OF d, of 5]
    by (simp add: NewAMLCheck_def)
qed

text \<open>
  A record whose ExpiresAt equals \<open>now\<close> is not removed: the sweep over a registry holding
  only that record removes nothing and returns 0.
\<close>

theorem CleanupExpired_keeps_record_expiring_now:
  "ExpiresAt (NewAMLCheck ''c1'' 0 ''addr'' ''BTC'' 5) = 5
   \<and> MemoryCheckRepository_CleanupExpired [(''c1'', NewAMLCheck ''c1'' 0 ''addr'' ''BTC'' 5)] 5
       = (0, [(''c1'', NewAMLCheck ''c1'' 0 ''addr'' ''BTC'' 5)])"
  by (simp add: MemoryCheckRepository_CleanupExpired_def NewAMLCheck_def)


section \<open>Report worker: status and replay\<close>

lemma HandleCheckFailed_lookup:
  "map_of (w_registry (snd (HandleCheckFailedUseCase_Execute now w checkID msg))) k =
     (case map_of (w_registry w) checkID of
        None \<Rightarrow> map_of (w_registry w) k
      | Some c \<Rightarrow>
          if k = checkID \<or> (k = ID c \<and> map_of (w_registry w) (ID c) \<noteq> None)
          then Some (MarkFailed now c msg) else map_of (w_registry w) k)"
  by (auto simp: HandleCheckFailedUseCase_Execute_def MemoryCheckRepository_Get_def
      MemoryCheckRepository_Update_def update_conv MarkFailed_def Let_def
      split: option.splits)

lemma ReportStorage_Put_None:
  "ReportStorage_Put store None now st key d ttl =
     (None, AList.update (case store of LocalStorage \<Rightarrow> key | MinIOStorage \<Rightarrow> objectKey now key)
              (d, now + ttl) st)"
  by (cases store) (simp_all add: LocalStorage_Put_def MinIOStorage_Put_def)

lemma ReportStorage_Put_Some:
  "ReportStorage_Put store (Some err) now st key d ttl =
     (Some (Wrapf (case store of LocalStorage \<Rightarrow> ''failed to write file: ''
                   | MinIOStorage \<Rightarrow> ''failed to put object: '') err []), st)"
  by (cases store) (simp_all add: LocalStorage_Put_def MinIOStorage_Put_def)

lemma GenerateReport_lookup:
  "map_of (w_registry (snd (GenerateReportUseCase_Execute store env pdf ttl w checkID s l cs sa))) k =
     (case map_of (w_registry w) checkID of
        None \<Rightarrow> map_of (w_registry w) k
      | Some c \<Rightarrow>
          if (\<exists>d. pdf = Inr d \<and> 1024 \<le> length d \<and> take 4 d = ''%PDF'') \<and> env_write env = None
             \<and> (k = checkID \<or> (k = ID c \<and> map_of (w_registry w) (ID c) \<noteq> None))
          then Some (MarkCompleted (env_now env) c s l cs sa (checkID @ ''.pdf''))
          else map_of (w_registry w) k)"
proof (cases "env_write env")
  case None
  then show ?thesis
    by (auto simp: GenerateReportUseCase_Execute_def MemoryCheckRepository_Get_def
        MemoryCheckRepository_Update_def update_conv MarkCompleted_def Let_def
        ReportStorage_Put_None RabbitMQBus_Publish_def PublishWithContext_def
        split: option.splits sum.splits prod.splits)
next
  case (Some err)
  then show ?thesis
    by (auto simp: GenerateReportUseCase_Execute_def MemoryCheckRepository_Get_def Let_def
        ReportStorage_Put_Some
        split: option.splits sum.splits prod.splits)
qed

lemma GenerateReport_success:
  assumes "fst (GenerateReportUseCase_Execute store env pdf ttl w checkID s l cs sa) = None"
  shows "\<exists>c d. map_of (w_registry w) checkID = Some c \<and> pdf = Inr d
           \<and> 1024 \<le> length d \<and> take 4 d = ''%PDF'' \<and> env_write env = None
           \<and> map_of (w_storage (snd (GenerateReportUseCase_Execute store env pdf ttl w checkID s l cs sa)))
                (case store of LocalStorage \<Rightarrow> checkID @ ''.pdf''
                 | MinIOStorage \<Rightarrow> objectKey (env_now env) (checkID @ ''.pdf''))
               = Some (d, env_now env + ttl)"
proof (cases "env_write env")
  case None
  with assms show ?thesis
    by (auto simp: GenerateReportUseCase_Execute_def MemoryCheckRepository_Get_def
        MemoryCheckRepository_Update_def update_conv Let_def
        ReportStorage_Put_None RabbitMQBus_Publish_def PublishWithContext_def
        split: option.splits sum.splits prod.splits if_splits)
next
  case (Some err)
  with assms show ?thesis
    by (auto simp: GenerateReportUseCase_Execute_def MemoryCheckRepository_Get_def Let_def
        ReportStorage_Put_Some
        split: option.splits sum.splits prod.splits if_splits)
qed

lemma update_present_keys:
  "map_of al k \<noteq> None \<Longrightarrow> map fst (AList.update k v al) = map fst al"
  by (induction al) auto

lemma update_keys_subset:
  "set (map fst (AList.update k v al)) = insert k (set (map fst al))"
  by (induction al) auto

lemma update_keys_image:
  "fst ` set (AList.update k v al) = insert k (fst ` set al)"
  using update_keys_subset [of k v al] by simp

lemma GenerateReport_storage_keys:
  "map_of (w_storage w)
     (case store of LocalStorage \<Rightarrow> checkID @ ''.pdf''
      | MinIOStorage \<Rightarrow> objectKey (env_now env) (checkID @ ''.pdf'')) \<noteq> None \<Longrightarrow>
   map fst (w_storage (snd (GenerateReportUseCase_Execute store env pdf ttl w checkID s l cs sa)))
     = map fst (w_storage w)"
proof (cases "env_write env")
  case None
  assume "map_of (w_storage w)
     (case store of LocalStorage \<Rightarrow> checkID @ ''.pdf''
      | MinIOStorage \<Rightarrow> objectKey (env_now env) (checkID @ ''.pdf'')) \<noteq> None"
  with None show ?thesis
    by (auto simp: GenerateReportUseCase_Execute_def MemoryCheckRepository_Get_def
        MemoryCheckRepository_Update_def Let_def update_present_keys
        ReportStorage_Put_None RabbitMQBus_Publish_def PublishWithContext_def
        split: option.splits sum.splits prod.splits)
next
  case (Some err)
  then show ?thesis
    by (auto simp: GenerateReportUseCase_Execute_def MemoryCheckRepository_Get_def Let_def
        ReportStorage_Put_Some
        split: option.splits sum.splits prod.splits)
qed

lemma objectKey_same_date:
  "Year t = Year t' \<Longrightarrow> Month t = Month t' \<Longrightarrow> Day t = Day t' \<Longrightarrow> objectKey t key = objectKey t' key"
  by (simp add: objectKey_def)

lemma GenerateReport_storage_subset:
  "set (map fst (w_storage (snd (GenerateReportUseCase_Execute store env pdf ttl w checkID s l cs sa))))
     \<subseteq> insert (case store of LocalStorage \<Rightarrow> checkID @ ''.pdf''
                | MinIOStorage \<Rightarrow> objectKey (env_now env) (checkID @ ''.pdf''))
          (set (map fst (w_storage w)))"
proof (cases "env_write env")
  case None
  then show ?thesis
    by (auto simp: GenerateReportUseCase_Execute_def MemoryCheckRepository_Get_def
        MemoryCheckRepository_Update_def Let_def update_keys_image
        ReportStorage_Put_None RabbitMQBus_Publish_def PublishWithContext_def
        split: option.splits sum.splits prod.splits)
next
  case (Some err)
  then show ?thesis
    by (auto simp: GenerateReportUseCase_Execute_def MemoryCheckRepository_Get_def Let_def
        ReportStorage_Put_Some
        split: option.splits sum.splits prod.splits)
qed

text \<open>
  C2, as the code has it.  MarkCompleted always sets Completed and MarkFailed always sets
  Failed, whatever the status was, and the two use cases of the report worker apply them
  without looking at the current status.  So no operation returns a check to Processing:
  a record that is terminal before a worker's registry update is terminal after it,
  whichever report store is in use.
\<close>

theorem terminal_status_stays_terminal:
  "Status (MarkCompleted now c s l cs sa rk) = StatusCompleted
   \<and> Status (MarkFailed now c m) = StatusFailed
   \<and> (map_of (w_registry w) k = Some c0 \<and> Status c0 \<noteq> StatusProcessing \<longrightarrow>
        (\<exists>c'. map_of (w_registry (snd (HandleCheckFailedUseCase_Execute now w checkID m))) k = Some c'
              \<and> Status c' \<noteq> StatusProcessing)
        \<and> (\<exists>c'. map_of (w_registry (snd (GenerateReportUseCase_Execute store env pdf ttl w checkID
                                            s l cs sa))) k
                = Some c' \<and> Status c' \<noteq> StatusProcessing))"
  by (auto simp: HandleCheckFailed_lookup GenerateReport_lookup MarkCompleted_def MarkFailed_def
      split: option.splits)

theorem terminal_status_stays_terminal_witness:
  "map_of (w_registry \<lparr> w_registry = [(''c1'', MarkFailed 5 (NewAMLCheck ''c1'' 0 ''addr'' ''BTC'' 100) ''boom'')],
                        w_storage = [], w_channel = [] \<rparr>) ''c1''
     = Some (MarkFailed 5 (NewAMLCheck ''c1'' 0 ''addr'' ''BTC'' 100) ''boom'')
   \<and> Status (MarkFailed 5 (NewAMLCheck ''c1'' 0 ''addr'' ''BTC'' 100) ''boom'') \<noteq> StatusProcessing
   \<and> (\<exists>c'. map_of (w_registry (snd (HandleCheckFailedUseCase_Execute 7
          \<lparr> w_registry = [(''c1'', MarkFailed 5 (NewAMLCheck ''c1'' 0 ''addr'' ''BTC'' 100) ''boom'')],
            w_storage = [], w_channel = [] \<rparr> ''c1'' ''again''))) ''c1'' = Some c'
        \<and> Status c' \<noteq> StatusProcessing)"
  using terminal_status_stays_terminal
    [where now = 7 and c = "NewAMLCheck ''c1'' 0 ''addr'' ''BTC'' 100" and m = "''again''"
      and w = "\<lparr> w_registry = [(''c1'', MarkFailed 5 (NewAMLCheck ''c1'' 0 ''addr'' ''BTC'' 100) ''boom'')],
         w_storage = [], w_channel = [] \<rparr>"
      and k = "''c1''" and ?c0.0 = "MarkFailed 5 (NewAMLCheck ''c1'' 0 ''addr'' ''BTC'' 100) ''boom''"
      and checkID = "''c1''"]
  by (simp add: MarkFailed_def)

text \<open>
  A terminal check does change status.  A Completed check for which a check.failed event
  is handled becomes Failed, and a Failed check for which a check.completed event is
  handled becomes Completed.
\<close>

theorem terminal_check_changes_status:
  "map_option Status (map_of
       [(''c1'', MarkCompleted 5 (NewAMLCheck ''c1'' 0 ''addr'' ''BTC'' 100) 85 RiskLevelCritical
                   [] None ''c1.pdf'')] ''c1'') = Some StatusCompleted
   \<and> fst (HandleCheckFailedUseCase_Execute 7
        \<lparr> w_registry = [(''c1'', MarkCompleted 5 (NewAMLCheck ''c1'' 0 ''addr'' ''BTC'' 100) 85
                                   RiskLevelCritical [] None ''c1.pdf'')],
          w_storage = [], w_channel = [] \<rparr> ''c1'' ''boom'') = None
   \<and> map_option Status (map_of (w_registry (snd (HandleCheckFailedUseCase_Execute 7
        \<lparr> w_registry = [(''c1'', MarkCompleted 5 (NewAMLCheck ''c1'' 0 ''addr'' ''BTC'' 100) 85
                                   RiskLevelCritical [] None ''c1.pdf'')],
          w_storage = [], w_channel = [] \<rparr> ''c1'' ''boom''))) ''c1'') = Some StatusFailed
   \<and> map_option Status (map_of
       [(''c2'', MarkFailed 5 (NewAMLCheck ''c2'' 0 ''addr'' ''BTC'' 100) ''AML check failed: timeout'')]
       ''c2'') = Some StatusFailed
   \<and> fst (GenerateReportUseCase_Execute LocalStorage
        \<lparr> env_now = 7, env_uuid = ''u1'', env_eventID = ''e1'', env_publish = None,
          env_write = None \<rparr>
        (Inr (''%PDF'' @ replicate 1020 CHR ''x'')) 500
        \<lparr> w_registry = [(''c2'', MarkFailed 5 (NewAMLCheck ''c2'' 0 ''addr'' ''BTC'' 100)
                                   ''AML check failed: timeout'')],
          w_storage = [], w_channel = [] \<rparr>
        ''c2'' 85 RiskLevelCritical [] None) = None
   \<and> map_option Status (map_of (w_registry (snd (GenerateReportUseCase_Execute LocalStorage
        \<lparr> env_now = 7, env_uuid = ''u1'', env_eventID = ''e1'', env_publish = None,
          env_write = None \<rparr>
        (Inr (''%PDF'' @ replicate 1020 CHR ''x'')) 500
        \<lparr> w_registry = [(''c2'', MarkFailed 5 (NewAMLCheck ''c2'' 0 ''addr'' ''BTC'' 100)
                                   ''AML check failed: timeout'')],
          w_storage = [], w_channel = [] \<rparr>
        ''c2'' 85 RiskLevelCritical [] None))) ''c2'') = Some StatusCompleted"
  by (simp add: HandleCheckFailedUseCase_Execute_def GenerateReportUseCase_Execute_def
      MemoryCheckRepository_Get_def MemoryCheckRepository_Update_def LocalStorage_Put_def
      RabbitMQBus_Publish_def PublishWithContext_def MarkCompleted_def MarkFailed_def
      NewAMLCheck_def Let_def)

lemma objectKey_evening: "objectKey 1700000000000000000 key = ''reports/2023/11/14/'' @ key"
  by code_simp

lemma objectKey_next_day: "objectKey 1700007200000000000 key = ''reports/2023/11/15/'' @ key"
  by code_simp

lemma Date_evening: "Date 1700000000000000000 = (2023, 11, 14)"
  by code_simp

lemma Date_later: "Date 1700000060000000000 = (2023, 11, 14)"
  by code_simp

text \<open>
  C3, as the code has it.  When a first execution of the check.completed handling
  succeeds, the record of the check is Completed with the event's score, level,
  categories and sanctions and the report key \<open>checkID.pdf\<close>, and the report is in the
  store: under that key in the local store, under the object key made of the date of the
  call and that key in the MinIO store.  After a second execution with the same payload,
  whatever the clock, the renderer, the store and the broker do this time, the record has
  the same status and the same five fields.  The second execution adds at most the name
  it stores under; with the local store, or with the MinIO store on the same UTC date as
  the first, that name is already there and the store has the same names as before.
\<close>

theorem GenerateReport_replay:
  assumes first: "GenerateReportUseCase_Execute store env1 pdf1 ttl w0 checkID s l cs sa = (None, w1)"
      and second: "GenerateReportUseCase_Execute store env2 pdf2 ttl w1 checkID s l cs sa = (res2, w2)"
  shows "(\<exists>c1 c2. map_of (w_registry w1) checkID = Some c1 \<and> map_of (w_registry w2) checkID = Some c2
           \<and> Status c1 = StatusCompleted \<and> Status c2 = StatusCompleted
           \<and> RiskScore c1 = s \<and> RiskScore c2 = s
           \<and> RiskLevel c1 = l \<and> RiskLevel c2 = l
           \<and> Categories c1 = cs \<and> Categories c2 = cs
           \<and> Sanctions c1 = sa \<and> Sanctions c2 = sa
           \<and> ReportKey c1 = checkID @ ''.pdf'' \<and> ReportKey c2 = checkID @ ''.pdf'')
       \<and> map_of (w_storage w1)
            (case store of LocalStorage \<Rightarrow> checkID @ ''.pdf''
             | MinIOStorage \<Rightarrow> objectKey (env_now env1) (checkID @ ''.pdf'')) \<noteq> None
       \<and> set (map fst (w_storage w2))
            \<subseteq> insert (case store of LocalStorage \<Rightarrow> checkID @ ''.pdf''
                       | MinIOStorage \<Rightarrow> objectKey (env_now env2) (checkID @ ''.pdf''))
                 (set (map fst (w_storage w1)))
       \<and> (store = LocalStorage
           \<or> (Year (env_now env2) = Year (env_now env1) \<and> Month (env_now env2) = Month (env_now env1)
              \<and> Day (env_now env2) = Day (env_now env1)) \<longrightarrow>
            map fst (w_storage w2) = map fst (w_storage w1))
       \<and> (res2 = None \<longrightarrow>
            (\<exists>d. pdf2 = Inr d
                 \<and> map_of (w_storage w2)
                      (case store of LocalStorage \<Rightarrow> checkID @ ''.pdf''
                       | MinIOStorage \<Rightarrow> objectKey (env_now env2) (checkID @ ''.pdf''))
                     = Some (d, env_now env2 + ttl)))"
proof -
  let ?k1 = "case store of LocalStorage \<Rightarrow> checkID @ ''.pdf''
             | MinIOStorage \<Rightarrow> objectKey (env_now env1) (checkID @ ''.pdf'')"
  let ?k2 = "case store of LocalStorage \<Rightarrow> checkID @ ''.pdf''
             | MinIOStorage \<Rightarrow> objectKey (env_now env2) (checkID @ ''.pdf'')"
  from first have f: "fst (GenerateReportUseCase_Execute store env1 pdf1 ttl w0 checkID s l cs sa) = None"
    and w1: "w1 = snd (GenerateReportUseCase_Execute store env1 pdf1 ttl w0 checkID s l cs sa)"
    by simp_all
  from second have w2: "w2 = snd (GenerateReportUseCase_Execute store env2 pdf2 ttl w1 checkID s l cs sa)"
    and r2: "res2 = fst (GenerateReportUseCase_Execute store env2 pdf2 ttl w1 checkID s l cs sa)"
    by simp_all
  from GenerateReport_success [OF f] obtain c d where
    c: "map_of (w_registry w0) checkID = Some c" and d: "pdf1 = Inr d" "1024 \<le> length d"
      "take 4 d = ''%PDF''" "env_write env1 = None"
    and st: "map_of (w_storage w1) ?k1 = Some (d, env_now env1 + ttl)"
    unfolding w1 by blast
  have l1: "map_of (w_registry w1) checkID
              = Some (MarkCompleted (env_now env1) c s l cs sa (checkID @ ''.pdf''))"
    unfolding w1 using c d by (simp add: GenerateReport_lookup)
  have 1: "\<exists>c1 c2. map_of (w_registry w1) checkID = Some c1 \<and> map_of (w_registry w2) checkID = Some c2
           \<and> Status c1 = StatusCompleted \<and> Status c2 = StatusCompleted
           \<and> RiskScore c1 = s \<and> RiskScore c2 = s
           \<and> RiskLevel c1 = l \<and> RiskLevel c2 = l
           \<and> Categories c1 = cs \<and> Categories c2 = cs
           \<and> Sanctions c1 = sa \<and> Sanctions c2 = sa
           \<and> ReportKey c1 = checkID @ ''.pdf'' \<and> ReportKey c2 = checkID @ ''.pdf''"
    unfolding w2 using l1 by (simp add: GenerateReport_lookup MarkCompleted_def)
  have 2: "map_of (w_storage w1) ?k1 \<noteq> None" using st by simp
  have 3: "set (map fst (w_storage w2)) \<subseteq> insert ?k2 (set (map fst (w_storage w1)))"
    unfolding w2 by (rule GenerateReport_storage_subset)
  have 4: "store = LocalStorage
           \<or> (Year (env_now env2) = Year (env_now env1) \<and> Month (env_now env2) = Month (env_now env1)
              \<and> Day (env_now env2) = Day (env_now env1)) \<longrightarrow>
            map fst (w_storage w2) = map fst (w_storage w1)"
  proof
    assume same: "store = LocalStorage
           \<or> (Year (env_now env2) = Year (env_now env1) \<and> Month (env_now env2) = Month (env_now env1)
              \<and> Day (env_now env2) = Day (env_now env1))"
    have "?k2 = ?k1"
    proof (cases store)
      case LocalStorage
      then show ?thesis by simp
    next
      case MinIOStorage
      with same have "objectKey (env_now env2) (checkID @ ''.pdf'')
                        = objectKey (env_now env1) (checkID @ ''.pdf'')"
        by (auto intro: objectKey_same_date)
      with MinIOStorage show ?thesis by simp
    qed
    with 2 have "map_of (w_storage w1) ?k2 \<noteq> None" by simp
    then show "map fst (w_storage w2) = map fst (w_storage w1)"
      unfolding w2 by (rule GenerateReport_storage_keys)
  qed
  have 5: "res2 = None \<longrightarrow>
            (\<exists>d. pdf2 = Inr d \<and> map_of (w_storage w2) ?k2 = Some (d, env_now env2 + ttl))"
    unfolding r2 w2 using GenerateReport_success [of store env2 pdf2 ttl w1 checkID s l cs sa]
    by blast
  from 1 2 3 4 5 show ?thesis by blast
qed

theorem GenerateReport_replay_witness:
  "fst (GenerateReportUseCase_Execute MinIOStorage
          \<lparr> env_now = 1700000000000000000, env_uuid = ''u1'', env_eventID = ''e1'',
            env_publish = None, env_write = None \<rparr>
          (Inr (''%PDF'' @ replicate 1020 CHR ''x'')) 86400000000000
          \<lparr> w_registry = [(''3f2b8c1e-5d4a-4e6b-9c7d-1a2b3c4d5e6f'',
               NewAMLCheck ''3f2b8c1e-5d4a-4e6b-9c7d-1a2b3c4d5e6f'' 1699999990000000000
                 ''addr'' ''BTC'' 900000000000)],
            w_storage = [], w_channel = [] \<rparr>
          ''3f2b8c1e-5d4a-4e6b-9c7d-1a2b3c4d5e6f'' 85 RiskLevelCritical [''Darknet''] None) = None
   \<and> Year 1700000060000000000 = Year 1700000000000000000
   \<and> Month 1700000060000000000 = Month 1700000000000000000
   \<and> Day 1700000060000000000 = Day 1700000000000000000
   \<and> map_option Status (map_of (w_registry (snd (GenerateReportUseCase_Execute MinIOStorage
          \<lparr> env_now = 1700000060000000000, env_uuid = ''u2'', env_eventID = ''e2'',
            env_publish = None, env_write = None \<rparr>
          (Inr (''%PDF'' @ replicate 1030 CHR ''y'')) 86400000000000
          (snd (GenerateReportUseCase_Execute MinIOStorage
             \<lparr> env_now = 1700000000000000000, env_uuid = ''u1'', env_eventID = ''e1'',
               env_publish = None, env_write = None \<rparr>
             (Inr (''%PDF'' @ replicate 1020 CHR ''x'')) 86400000000000
             \<lparr> w_registry = [(''3f2b8c1e-5d4a-4e6b-9c7d-1a2b3c4d5e6f'',
                  NewAMLCheck ''3f2b8c1e-5d4a-4e6b-9c7d-1a2b3c4d5e6f'' 1699999990000000000
                    ''addr'' ''BTC'' 900000000000)],
               w_storage = [], w_channel = [] \<rparr>
             ''3f2b8c1e-5d4a-4e6b-9c7d-1a2b3c4d5e6f'' 85 RiskLevelCritical [''Darknet''] None))
          ''3f2b8c1e-5d4a-4e6b-9c7d-1a2b3c4d5e6f'' 85 RiskLevelCritical [''Darknet''] None)))
        ''3f2b8c1e-5d4a-4e6b-9c7d-1a2b3c4d5e6f'') = Some StatusCompleted
   \<and> map fst (w_storage (snd (GenerateReportUseCase_Execute MinIOStorage
          \<lparr> env_now = 1700000060000000000, env_uuid = ''u2'', env_eventID = ''e2'',
            env_publish = None, env_write = None \<rparr>
          (Inr (''%PDF'' @ replicate 1030 CHR ''y'')) 86400000000000
          (snd (GenerateReportUseCase_Execute MinIOStorage
             \<lparr> env_now = 1700000000000000000, env_uuid = ''u1'', env_eventID = ''e1'',
               env_publish = None, env_write = None \<rparr>
             (Inr (''%PDF'' @ replicate 1020 CHR ''x'')) 86400000000000
             \<lparr> w_registry = [(''3f2b8c1e-5d4a-4e6b-9c7d-1a2b3c4d5e6f'',
                  NewAMLCheck ''3f2b8c1e-5d4a-4e6b-9c7d-1a2b3c4d5e6f'' 1699999990000000000
                    ''addr'' ''BTC'' 900000000000)],
               w_storage = [], w_channel = [] \<rparr>
             ''3f2b8c1e-5d4a-4e6b-9c7d-1a2b3c4d5e6f'' 85 RiskLevelCritical [''Darknet''] None))
          ''3f2b8c1e-5d4a-4e6b-9c7d-1a2b3c4d5e6f'' 85 RiskLevelCritical [''Darknet''] None)))
       = [''reports/2023/11/14/3f2b8c1e-5d4a-4e6b-9c7d-1a2b3c4d5e6f.pdf'']"
proof -
  let ?e1 = "\<lparr> env_now = 1700000000000000000, env_uuid = ''u1'', env_eventID = ''e1'',
               env_publish = None, env_write = None \<rparr>"
  let ?e2 = "\<lparr> env_now = 1700000060000000000, env_uuid = ''u2'', env_eventID = ''e2'',
               env_publish = None, env_write = None \<rparr>"
  let ?id = "''3f2b8c1e-5d4a-4e6b-9c7d-1a2b3c4d5e6f''"
  let ?w0 = "\<lparr> w_registry = [(?id, NewAMLCheck ?id 1699999990000000000 ''addr'' ''BTC'' 900000000000)],
               w_storage = [], w_channel = [] \<rparr>"
  let ?p1 = "Inr (''%PDF'' @ replicate 1020 CHR ''x'') :: error + string"
  let ?p2 = "Inr (''%PDF'' @ replicate 1030 CHR ''y'') :: error + string"
  let ?run1 = "GenerateReportUseCase_Execute MinIOStorage ?e1 ?p1 86400000000000 ?w0 ?id 85
                 RiskLevelCritical [''Darknet''] None"
  let ?run2 = "GenerateReportUseCase_Execute MinIOStorage ?e2 ?p2 86400000000000 (snd ?run1) ?id 85
                 RiskLevelCritical [''Darknet''] None"
  have f: "fst ?run1 = None"
    by (simp add: GenerateReportUseCase_Execute_def MemoryCheckRepository_Get_def
        MemoryCheckRepository_Update_def MinIOStorage_Put_def RabbitMQBus_Publish_def
        PublishWithContext_def MarkCompleted_def NewAMLCheck_def Let_def)
  have k: "map fst (w_storage (snd ?run1)) = [''reports/2023/11/14/3f2b8c1e-5d4a-4e6b-9c7d-1a2b3c4d5e6f.pdf'']"
    by (simp add: GenerateReportUseCase_Execute_def MemoryCheckRepository_Get_def
        MemoryCheckRepository_Update_def MinIOStorage_Put_def RabbitMQBus_Publish_def
        PublishWithContext_def MarkCompleted_def NewAMLCheck_def Let_def objectKey_evening)
  have d: "Year 1700000060000000000 = Year 1700000000000000000"
    "Month 1700000060000000000 = Month 1700000000000000000"
    "Day 1700000060000000000 = Day 1700000000000000000"
    by (simp_all add: Year_def Month_def Day_def Date_evening Date_later)
  have first: "?run1 = (None, snd ?run1)" using f by (simp add: prod_eq_iff)
  have second: "?run2 = (fst ?run2, snd ?run2)" by simp
  from GenerateReport_replay [OF first second] f k d show ?thesis by auto
qed

text \<open>
  With the MinIO store a replay on another UTC date leaves a second object.  The first
  execution runs on 14 November 2023 at 22:13:20 UTC and the second two hours later, on
  15 November; both return no error, and the store then holds the report of the one check
  under two names.
\<close>

theorem GenerateReport_replay_next_day:
  "fst (GenerateReportUseCase_Execute MinIOStorage
          \<lparr> env_now = 1700000000000000000, env_uuid = ''u1'', env_eventID = ''e1'',
            env_publish = None, env_write = None \<rparr>
          (Inr (''%PDF'' @ replicate 1020 CHR ''x'')) 86400000000000
          \<lparr> w_registry = [(''3f2b8c1e-5d4a-4e6b-9c7d-1a2b3c4d5e6f'',
               NewAMLCheck ''3f2b8c1e-5d4a-4e6b-9c7d-1a2b3c4d5e6f'' 1699999990000000000
                 ''addr'' ''BTC'' 900000000000)],
            w_storage = [], w_channel = [] \<rparr>
          ''3f2b8c1e-5d4a-4e6b-9c7d-1a2b3c4d5e6f'' 85 RiskLevelCritical [''Darknet''] None) = None
   \<and> map fst (w_storage (snd (GenerateReportUseCase_Execute MinIOStorage
          \<lparr> env_now = 1700000000000000000, env_uuid = ''u1'', env_eventID = ''e1'',
            env_publish = None, env_write = None \<rparr>
          (Inr (''%PDF'' @ replicate 1020 CHR ''x'')) 86400000000000
          \<lparr> w_registry = [(''3f2b8c1e-5d4a-4e6b-9c7d-1a2b3c4d5e6f'',
               NewAMLCheck ''3f2b8c1e-5d4a-4e6b-9c7d-1a2b3c4d5e6f'' 1699999990000000000
                 ''addr'' ''BTC'' 900000000000)],
            w_storage = [], w_channel = [] \<rparr>
          ''3f2b8c1e-5d4a-4e6b-9c7d-1a2b3c4d5e6f'' 85 RiskLevelCritical [''Darknet''] None)))
       = [''reports/2023/11/14/3f2b8c1e-5d4a-4e6b-9c7d-1a2b3c4d5e6f.pdf'']
   \<and> fst (GenerateReportUseCase_Execute MinIOStorage
          \<lparr> env_now = 1700007200000000000, env_uuid = ''u2'', env_eventID = ''e2'',
            env_publish = None, env_write = None \<rparr>
          (Inr (''%PDF'' @ replicate 1020 CHR ''x'')) 86400000000000
          (snd (GenerateReportUseCase_Execute MinIOStorage
             \<lparr> env_now = 1700000000000000000, env_uuid = ''u1'', env_eventID = ''e1'',
               env_publish = None, env_write = None \<rparr>
             (Inr (''%PDF'' @ replicate 1020 CHR ''x'')) 86400000000000
             \<lparr> w_registry = [(''3f2b8c1e-5d4a-4e6b-9c7d-1a2b3c4d5e6f'',
                  NewAMLCheck ''3f2b8c1e-5d4a-4e6b-9c7d-1a2b3c4d5e6f'' 1699999990000000000
                    ''addr'' ''BTC'' 900000000000)],
               w_storage = [], w_channel = [] \<rparr>
             ''3f2b8c1e-5d4a-4e6b-9c7d-1a2b3c4d5e6f'' 85 RiskLevelCritical [''Darknet''] None))
          ''3f2b8c1e-5d4a-4e6b-9c7d-1a2b3c4d5e6f'' 85 RiskLevelCritical [''Darknet''] None) = None
   \<and> map fst (w_storage (snd (GenerateReportUseCase_Execute MinIOStorage
          \<lparr> env_now = 1700007200000000000, env_uuid = ''u2'', env_eventID = ''e2'',
            env_publish = None, env_write = None \<rparr>
          (Inr (''%PDF'' @ replicate 1020 CHR ''x'')) 86400000000000
          (snd (GenerateReportUseCase_Execute MinIOStorage
             \<lparr> env_now = 1700000000000000000, env_uuid = ''u1'', env_eventID = ''e1'',
               env_publish = None, env_write = None \<rparr>
             (Inr (''%PDF'' @ replicate 1020 CHR ''x'')) 86400000000000
             \<lparr> w_registry = [(''3f2b8c1e-5d4a-4e6b-9c7d-1a2b3c4d5e6f'',
                  NewAMLCheck ''3f2b8c1e-5d4a-4e6b-9c7d-1a2b3c4d5e6f'' 1699999990000000000
                    ''addr'' ''BTC'' 900000000000)],
               w_storage = [], w_channel = [] \<rparr>
             ''3f2b8c1e-5d4a-4e6b-9c7d-1a2b3c4d5e6f'' 85 RiskLevelCritical [''Darknet''] None))
          ''3f2b8c1e-5d4a-4e6b-9c7d-1a2b3c4d5e6f'' 85 RiskLevelCritical [''Darknet''] None)))
       = [''reports/2023/11/14/3f2b8c1e-5d4a-4e6b-9c7d-1a2b3c4d5e6f.pdf'',
          ''reports/2023/11/15/3f2b8c1e-5d4a-4e6b-9c7d-1a2b3c4d5e6f.pdf'']"
  by (simp add: GenerateReportUseCase_Execute_def MemoryCheckRepository_Get_def
      MemoryCheckRepository_Update_def MinIOStorage_Put_def RabbitMQBus_Publish_def
      PublishWithContext_def MarkCompleted_def NewAMLCheck_def Let_def
      objectKey_evening objectKey_next_day)

section \<open>Risk-assessment worker\<close>

text \<open>
  C5.  When the risk provider returns an error, the worker hands the bus exactly one
  message, a check.failed event whose error message is "AML check failed: " followed by
  the provider's error, and no check.completed event; it returns an error.  When the risk
  provider succeeds and the sanctions provider returns an error, the worker hands the bus
  exactly one message, a check.completed event with the provider's score, level and
  categories and the sanctions result with no hit and no identifications, and it returns
  no error when the broker accepts the message.
\<close>

theorem ProcessAMLCheck_error_handling:
  "(aml = Inl err \<longrightarrow>
      ProcessAMLCheckUseCase_Execute aml sanctions env ch checkID address currency
        = ((case env_publish env of
              Some perr \<Rightarrow> Some (Wrapf ''failed to publish failed event: ''
                                  (Wrapf ''failed to publish event: '' perr []) [])
            | None \<Rightarrow> Some (Errorf (''AML check failed: '' @ Error err))),
           ch @ [(ExchangeName, EventAMLCheckFailed,
                  \<lparr> Headers = [], ContentType = ''application/json'', DeliveryMode = Persistent,
                    Timestamp = zero_time,
                    Body = \<lparr> ev_ID = env_eventID env, ev_Type = EventAMLCheckFailed,
                             ev_Timestamp = env_now env,
                             ev_Payload = AMLCheckFailedPayload checkID
                                            (''AML check failed: '' @ Error err) \<rparr> \<rparr>,
                  env_publish env)]))
   \<and> (aml = Inr (AMLResult riskScore riskLevel categories) \<and> sanctions = Inl serr \<longrightarrow>
      snd (ProcessAMLCheckUseCase_Execute aml sanctions env ch checkID address currency)
        = ch @ [(ExchangeName, EventAMLCheckCompleted,
                  \<lparr> Headers = [], ContentType = ''application/json'', DeliveryMode = Persistent,
                    Timestamp = zero_time,
                    Body = \<lparr> ev_ID = env_eventID env, ev_Type = EventAMLCheckCompleted,
                             ev_Timestamp = env_now env,
                             ev_Payload = AMLCheckCompletedPayload checkID riskScore riskLevel
                                            categories
                                            (Some \<lparr> Hit = False, Identifications = [] \<rparr>) \<rparr> \<rparr>,
                  env_publish env)]
      \<and> (fst (ProcessAMLCheckUseCase_Execute aml sanctions env ch checkID address currency) = None
            \<longleftrightarrow> env_publish env = None))
   \<and> EventAMLCheckFailed \<noteq> EventAMLCheckCompleted"
  by (auto simp: ProcessAMLCheckUseCase_Execute_def publishFailedEvent_def RabbitMQBus_Publish_def
      PublishWithContext_def NewEvent_def EventAMLCheckFailed_def EventAMLCheckCompleted_def
      split: option.splits)

theorem ProcessAMLCheck_error_handling_witness:
  "ProcessAMLCheckUseCase_Execute (Inl (Errorf ''timeout'')) (Inl (Errorf ''down''))
      \<lparr> env_now = 1000, env_uuid = ''u1'', env_eventID = ''e1'', env_publish = None,
        env_write = None \<rparr> [] ''c1'' ''addr'' ''BTC''
     = (Some (Errorf ''AML check failed: timeout''),
        [(ExchangeName, EventAMLCheckFailed,
          \<lparr> Headers = [], ContentType = ''application/json'', DeliveryMode = Persistent,
            Timestamp = zero_time,
            Body = \<lparr> ev_ID = ''e1'', ev_Type = EventAMLCheckFailed, ev_Timestamp = 1000,
                     ev_Payload = AMLCheckFailedPayload ''c1'' ''AML check failed: timeout'' \<rparr> \<rparr>,
          None)])
   \<and> ProcessAMLCheckUseCase_Execute (Inr (AMLResult 85 RiskLevelCritical [''Darknet'']))
      (Inl (Errorf ''down''))
      \<lparr> env_now = 1000, env_uuid = ''u1'', env_eventID = ''e1'', env_publish = None,
        env_write = None \<rparr> [] ''c1'' ''addr'' ''BTC''
     = (None,
        [(ExchangeName, EventAMLCheckCompleted,
          \<lparr> Headers = [], ContentType = ''application/json'', DeliveryMode = Persistent,
            Timestamp = zero_time,
            Body = \<lparr> ev_ID = ''e1'', ev_Type = EventAMLCheckCompleted, ev_Timestamp = 1000,
                     ev_Payload = AMLCheckCompletedPayload ''c1'' 85 RiskLevelCritical [''Darknet'']
                                    (Some \<lparr> Hit = False, Identifications = [] \<rparr>) \<rparr> \<rparr>,
          None)])"
  using
    ProcessAMLCheck_error_handling [of "Inl (Errorf ''timeout'')" "Errorf ''timeout''"
      "Inl (Errorf ''down'')"
      "\<lparr> env_now = 1000, env_uuid = ''u1'', env_eventID = ''e1'', env_publish = None,
         env_write = None \<rparr>" "[]" "''c1''" "''addr''" "''BTC''"]
    ProcessAMLCheck_error_handling [of "Inr (AMLResult 85 RiskLevelCritical [''Darknet''])" _
      "Inl (Errorf ''down'')"
      "\<lparr> env_now = 1000, env_uuid = ''u1'', env_eventID = ''e1'', env_publish = None,
         env_write = None \<rparr>" "[]" "''c1''" "''addr''" "''BTC''"
      85 RiskLevelCritical "[''Darknet'']" "Errorf ''down''"]
  by (simp add: prod_eq_iff)

section \<open>Intake\<close>

lemma asset_keys: "map_of NewDefaultAssetRegistry s = None \<longleftrightarrow> s \<notin> {''BTC'', ''ETH'', ''USDT''}"
  by (simp add: NewDefaultAssetRegistry_def register_def)

text \<open>
  C8.  When the upper-cased currency symbol is none of BTC, ETH and USDT, the intake
  returns the error that wraps ErrUnsupportedCurrency and names the symbol, and the
  registry, the store and the bus are exactly as before the call.
\<close>

theorem unsupported_currency_no_effect:
  assumes "ToUpper lib currency \<notin> {''BTC'', ''ETH'', ''USDT''}"
  shows "CheckAddressUseCase_Execute lib NewDefaultAssetRegistry checkTTL env w address currency
          = (Inl (Wrapf [] ErrUnsupportedCurrency ('': '' @ currency)), w)
         \<and> Is (Wrapf [] ErrUnsupportedCurrency ('': '' @ currency)) ErrUnsupportedCurrency
         \<and> Error (Wrapf [] ErrUnsupportedCurrency ('': '' @ currency))
             = ''unsupported currency: '' @ currency"
proof -
  have "map_of NewDefaultAssetRegistry (ToUpper lib currency) = None"
    using assms asset_keys [of "ToUpper lib currency"] by blast
  then show ?thesis
    by (simp add: CheckAddressUseCase_Execute_def DefaultAssetRegistry_Get_def)
qed

theorem unsupported_currency_no_effect_witness:
  "ToUpper ascii_strings ''XRP'' \<notin> {''BTC'', ''ETH'', ''USDT''}
   \<and> CheckAddressUseCase_Execute ascii_strings NewDefaultAssetRegistry 86400000000000
        \<lparr> env_now = 1000, env_uuid = ''u1'', env_eventID = ''e1'', env_publish = None,
          env_write = None \<rparr>
        \<lparr> w_registry = [], w_storage = [], w_channel = [] \<rparr>
        ''rEb8TK3gBgk5auZkwc6sHnwrGVJH8DuaLh'' ''XRP''
     = (Inl (Wrapf [] ErrUnsupportedCurrency '': XRP''),
        \<lparr> w_registry = [], w_storage = [], w_channel = [] \<rparr>)"
proof -
  have h: "ToUpper ascii_strings ''XRP'' \<notin> {''BTC'', ''ETH'', ''USDT''}"
    by (simp add: ascii_strings_def ascii_ToUpper_def char_between_def)
  show ?thesis
    using h unsupported_currency_no_effect [OF h, of 86400000000000
        "\<lparr> env_now = 1000, env_uuid = ''u1'', env_eventID = ''e1'', env_publish = None,
           env_write = None \<rparr>"
        "\<lparr> w_registry = [], w_storage = [], w_channel = [] \<rparr>"
        "''rEb8TK3gBgk5auZkwc6sHnwrGVJH8DuaLh''"]
    by simp
qed

section \<open>Signed report token\<close>

lemma digit_val_char_of: "d < 10 \<Longrightarrow> digit_val (char_of (48 + d)) = Some d"
  by (simp add: digit_val_def char_between_def)

lemma parse_digits_append:
  "parse_digits acc (xs @ ys) = (case parse_digits acc xs of None \<Rightarrow> None | Some a \<Rightarrow> parse_digits a ys)"
  by (induction xs arbitrary: acc) (auto split: option.splits)

lemma parse_show_nat: "parse_digits 0 (show_nat n) = Some n"
proof (induction n rule: show_nat.induct)
  case (1 n)
  show ?case
  proof (cases "n < 10")
    case True
    then show ?thesis by (subst show_nat.simps) (simp add: digit_val_char_of)
  next
    case False
    have m: "n mod 10 < 10" by simp
    from False 1 have ih: "parse_digits 0 (show_nat (n div 10)) = Some (n div 10)" by simp
    have "show_nat n = show_nat (n div 10) @ [char_of (48 + n mod 10)]"
      using False by (subst show_nat.simps) simp
    then show ?thesis
      using ih digit_val_char_of [OF m] by (simp add: parse_digits_append)
  qed
qed

lemma show_nat_nonempty: "show_nat n \<noteq> []"
  by (subst show_nat.simps) simp

lemma show_nat_hd_digit: "digit_val (hd (show_nat n)) \<noteq> None"
proof (induction n rule: show_nat.induct)
  case (1 n)
  show ?case
  proof (cases "n < 10")
    case True
    then show ?thesis by (subst show_nat.simps) (simp add: digit_val_char_of)
  next
    case False
    then show ?thesis using 1 show_nat_nonempty [of "n div 10"]
      by (subst show_nat.simps) simp
  qed
qed

lemma digit_not_sign: "digit_val c \<noteq> None \<Longrightarrow> c \<noteq> CHR ''+'' \<and> c \<noteq> CHR ''-''"
  by (auto simp: digit_val_def char_between_def)

lemma ParseInt_show_int:
  assumes "- (2 ^ 63) \<le> i" "i < 2 ^ 63"
  shows "ParseInt (show_int i) = Inr i"
proof (cases "i < 0")
  case True
  then show ?thesis using assms show_nat_nonempty [of "nat (- i)"]
    by (simp add: ParseInt_def show_int_def parse_show_nat Let_def)
next
  case False
  have "hd (show_nat (nat i)) \<noteq> CHR ''+'' \<and> hd (show_nat (nat i)) \<noteq> CHR ''-''"
    using digit_not_sign [OF show_nat_hd_digit] .
  then show ?thesis using False assms show_nat_nonempty [of "nat i"]
    by (simp add: ParseInt_def show_int_def parse_show_nat Let_def)
qed

lemma SplitN2_first:
  "sep \<notin> set xs \<Longrightarrow> SplitN2 (xs @ sep # ys) sep = [xs, ys]"
  by (induction xs) (auto simp: SplitN2_def)

lemma b64_char_code:
  "i < 64 \<Longrightarrow> (of_char (b64_char i) :: nat) =
     (if i < 26 then 65 + i else if i < 52 then 71 + i else if i < 62 then i - 4
      else if i = 62 then 45 else 95)"
  by (auto simp: b64_char_def)

lemma char_is_minus: "c = CHR ''-'' \<longleftrightarrow> (of_char c :: nat) = 45"
proof
  assume "c = CHR ''-''" then show "(of_char c :: nat) = 45" by simp
next
  assume "(of_char c :: nat) = 45"
  then have "(of_char c :: nat) = of_char CHR ''-''" by simp
  then show "c = CHR ''-''" by (simp only: of_char_eq_iff)
qed

lemma char_is_underscore: "c = CHR ''_'' \<longleftrightarrow> (of_char c :: nat) = 95"
proof
  assume "c = CHR ''_''" then show "(of_char c :: nat) = 95" by simp
next
  assume "(of_char c :: nat) = 95"
  then have "(of_char c :: nat) = of_char CHR ''_''" by simp
  then show "c = CHR ''_''" by (simp only: of_char_eq_iff)
qed

lemma b64_index_code:
  "b64_index c =
     (let n = (of_char c :: nat) in
      if 65 \<le> n \<and> n \<le> 90 then Some (n - 65)
      else if 97 \<le> n \<and> n \<le> 122 then Some (n - 97 + 26)
      else if 48 \<le> n \<and> n \<le> 57 then Some (n - 48 + 52)
      else if n = 45 then Some 62 else if n = 95 then Some 63 else None)"
  unfolding b64_index_def char_is_minus char_is_underscore
  by (simp add: char_between_def Let_def)

lemma b64_index_char:
  assumes "i < 64"
  shows "b64_index (b64_char i) = Some i"
  unfolding b64_index_code using assms
  by (simp add: b64_char_code Let_def) linarith

lemma b64_char_not_special:
  assumes "i < 64"
  shows "b64_char i \<noteq> CHR ''='' \<and> b64_char i \<noteq> CHR ''.''
     \<and> b64_char i \<noteq> char_of (13::nat) \<and> b64_char i \<noteq> char_of (10::nat)"
proof -
  have "(of_char (b64_char i) :: nat) \<notin> {61, 46, 13, 10}"
    using assms by (auto simp: b64_char_code split: if_splits)
  then show ?thesis by (auto simp del: of_char_eq_iff)
qed

lemma sextets:
  fixes A B C :: nat
  assumes "A < 256" "B < 256" "C < 256"
  shows "A div 4 < 64" "A mod 4 * 16 + B div 16 < 64" "B mod 16 * 4 + C div 64 < 64" "C mod 64 < 64"
    "A mod 4 * 16 < 64" "B mod 16 * 4 < 64"
    "A div 4 * 4 + (A mod 4 * 16 + B div 16) div 16 = A"
    "(A mod 4 * 16 + B div 16) mod 16 * 16 + (B mod 16 * 4 + C div 64) div 4 = B"
    "(B mod 16 * 4 + C div 64) mod 4 * 64 + C mod 64 = C"
    "A div 4 * 4 + (A mod 4 * 16) div 16 = A"
    "(A mod 4 * 16 + B div 16) mod 16 * 16 + (B mod 16 * 4) div 4 = B"
proof -
  have a4: "A mod 4 < 4" and b16: "B mod 16 < 16" by simp_all
  have bd: "B div 16 < 16" using assms(2) by simp
  have cd: "C div 64 < 4" using assms(3) by simp
  have 1: "(A mod 4 * 16 + B div 16) div 16 = A mod 4" using bd by simp
  have 2: "(A mod 4 * 16 + B div 16) mod 16 = B div 16" using bd by simp
  have 3: "(B mod 16 * 4 + C div 64) div 4 = B mod 16" using cd by simp
  have 4: "(B mod 16 * 4 + C div 64) mod 4 = C div 64" using cd by simp
  show "A div 4 < 64" using assms(1) by simp
  show "A mod 4 * 16 + B div 16 < 64" using a4 bd by linarith
  show "B mod 16 * 4 + C div 64 < 64" using b16 cd by linarith
  show "C mod 64 < 64" by simp
  show "A mod 4 * 16 < 64" using a4 by linarith
  show "B mod 16 * 4 < 64" using b16 by linarith
  show "A div 4 * 4 + (A mod 4 * 16 + B div 16) div 16 = A" unfolding 1 by simp
  show "(A mod 4 * 16 + B div 16) mod 16 * 16 + (B mod 16 * 4 + C div 64) div 4 = B"
    unfolding 2 3 by simp
  show "(B mod 16 * 4 + C div 64) mod 4 * 64 + C mod 64 = C" unfolding 4 by simp
  show "A div 4 * 4 + (A mod 4 * 16) div 16 = A" by simp
  show "(A mod 4 * 16 + B div 16) mod 16 * 16 + (B mod 16 * 4) div 4 = B" unfolding 2 by simp
qed

lemma of_char_lt: "(of_char (c::char) :: nat) < 256"
  by simp

lemma decode_group3:
  assumes "i1 < 64" "i2 < 64" "i3 < 64" "i4 < 64"
  shows "decode_groups (b64_char i1 # b64_char i2 # b64_char i3 # b64_char i4 # rest) =
     (case decode_groups rest of
        Inl err \<Rightarrow> Inl err
      | Inr bytes \<Rightarrow> Inr (char_of (i1 * 4 + i2 div 16) # char_of (i2 mod 16 * 16 + i3 div 4)
                          # char_of (i3 mod 4 * 64 + i4) # bytes))"
  using b64_char_not_special [OF assms(3)] b64_char_not_special [OF assms(4)]
  by (simp add: b64_index_char [OF assms(1)] b64_index_char [OF assms(2)]
      b64_index_char [OF assms(3)] b64_index_char [OF assms(4)])

lemma decode_group2:
  assumes "i1 < 64" "i2 < 64" "i3 < 64"
  shows "decode_groups [b64_char i1, b64_char i2, b64_char i3, CHR ''=''] =
     Inr [char_of (i1 * 4 + i2 div 16), char_of (i2 mod 16 * 16 + i3 div 4)]"
  using b64_char_not_special [OF assms(3)]
  by (simp add: b64_index_char [OF assms(1)] b64_index_char [OF assms(2)]
      b64_index_char [OF assms(3)])

lemma decode_group1:
  assumes "i1 < 64" "i2 < 64"
  shows "decode_groups [b64_char i1, b64_char i2, CHR ''='', CHR ''=''] =
     Inr [char_of (i1 * 4 + i2 div 16)]"
  by (simp add: b64_index_char [OF assms(1)] b64_index_char [OF assms(2)])

lemma char_of_of_char_nat: "char_of (of_char c :: nat) = c"
  by simp

lemma decode_encode_groups: "decode_groups (EncodeToString x) = Inr x"
proof (induction x rule: EncodeToString.induct)
  case 1
  then show ?case by simp
next
  case (2 a)
  note s = sextets [OF of_char_lt [of a] of_char_lt [of a] of_char_lt [of a]]
  have "decode_groups (EncodeToString [a]) = Inr [char_of (of_char a :: nat)]"
    by (simp only: EncodeToString.simps decode_group1 [OF s(1) s(5)] s(10))
  then show ?case by (simp only: char_of_of_char_nat)
next
  case (3 a b)
  note s = sextets [OF of_char_lt [of a] of_char_lt [of b] of_char_lt [of b]]
  have "decode_groups (EncodeToString [a, b])
          = Inr [char_of (of_char a :: nat), char_of (of_char b :: nat)]"
    by (simp only: EncodeToString.simps decode_group2 [OF s(1) s(2) s(6)] s(7) s(11))
  then show ?case by (simp only: char_of_of_char_nat)
next
  case (4 a b c rest)
  note s = sextets [OF of_char_lt [of a] of_char_lt [of b] of_char_lt [of c]]
  have "decode_groups (EncodeToString (a # b # c # rest))
          = Inr (char_of (of_char a :: nat) # char_of (of_char b :: nat)
                 # char_of (of_char c :: nat) # rest)"
    by (simp only: EncodeToString.simps append.simps decode_group3 [OF s(1) s(2) s(3) s(4)]
        s(7) s(8) s(9) 4 sum.case)
  then show ?case by (simp only: char_of_of_char_nat)
qed

lemma encode_chars:
  "c \<in> set (EncodeToString x) \<Longrightarrow> c = CHR ''='' \<or> (\<exists>i < 64. c = b64_char i)"
proof (induction x rule: EncodeToString.induct)
  case 1
  then show ?case by simp
next
  case (2 a)
  note s = sextets [OF of_char_lt [of a] of_char_lt [of a] of_char_lt [of a]]
  from 2 have "c = b64_char (of_char a div 4) \<or> c = b64_char (of_char a mod 4 * 16) \<or> c = CHR ''=''"
    by auto
  then show ?case using s(1) s(5) by blast
next
  case (3 a b)
  note s = sextets [OF of_char_lt [of a] of_char_lt [of b] of_char_lt [of b]]
  from 3 have "c = b64_char (of_char a div 4) \<or> c = b64_char (of_char a mod 4 * 16 + of_char b div 16)
     \<or> c = b64_char (of_char b mod 16 * 4) \<or> c = CHR ''=''"
    by auto
  then show ?case using s(1) s(2) s(6) by blast
next
  case (4 a b c' rest)
  note s = sextets [OF of_char_lt [of a] of_char_lt [of b] of_char_lt [of c']]
  from 4(2) have "c = b64_char (of_char a div 4) \<or> c = b64_char (of_char a mod 4 * 16 + of_char b div 16)
     \<or> c = b64_char (of_char b mod 16 * 4 + of_char c' div 64) \<or> c = b64_char (of_char c' mod 64)
     \<or> c \<in> set (EncodeToString rest)"
    by auto
  then show ?case using s(1) s(2) s(3) s(4) 4(1) by blast
qed

lemma encode_no_dot: "CHR ''.'' \<notin> set (EncodeToString x)"
proof
  assume "CHR ''.'' \<in> set (EncodeToString x)"
  from encode_chars [OF this] obtain i where "i < 64" "CHR ''.'' = b64_char i" by auto
  then show False using b64_char_not_special [of i] by simp
qed

lemma encode_no_newline:
  "filter (\<lambda>c. c \<noteq> char_of (13::nat) \<and> c \<noteq> char_of (10::nat)) (EncodeToString x) = EncodeToString x"
proof -
  have "\<forall>c \<in> set (EncodeToString x). c \<noteq> char_of (13::nat) \<and> c \<noteq> char_of (10::nat)"
  proof
    fix c assume "c \<in> set (EncodeToString x)"
    from encode_chars [OF this] show "c \<noteq> char_of (13::nat) \<and> c \<noteq> char_of (10::nat)"
    proof
      assume "c = CHR ''=''"
      then have "(of_char c :: nat) = 61" by simp
      then show ?thesis by (auto simp del: of_char_eq_iff)
    next
      assume "\<exists>i<64. c = b64_char i"
      then show ?thesis using b64_char_not_special by auto
    qed
  qed
  then show ?thesis by (simp add: filter_id_conv)
qed

lemma Decode_Encode: "DecodeString (EncodeToString x) = Inr x"
  by (simp only: DecodeString_def encode_no_newline decode_encode_groups)


lemma Unix_mono: "a \<le> b \<Longrightarrow> Unix a \<le> Unix b"
  by (simp add: Unix_def zdiv_mono1)

lemma Sign_split:
  "SplitN2 (HMACToken_Sign mac secret now key expires) CHR ''.'' =
     [EncodeToString (key @ '':'' @ show_int (Unix (now + expires))),
      EncodeToString (mac secret (EncodeToString (key @ '':'' @ show_int (Unix (now + expires)))))]"
  using SplitN2_first [OF encode_no_dot]
  by (simp add: HMACToken_Sign_def Let_def)

lemma Verify_Sign_payload:
  "HMACToken_Verify mac secret now' (HMACToken_Sign mac secret now key expires) =
     (case SplitN2 (key @ '':'' @ show_int (Unix (now + expires))) CHR '':'' of
        [k, expiry] \<Rightarrow>
          (case ParseInt expiry of
             Inl err \<Rightarrow> Inl (Errorf ''invalid expiration time'')
           | Inr expiresAt \<Rightarrow>
               if Unix now' > expiresAt then Inl (Errorf ''token expired'') else Inr k)
      | _ \<Rightarrow> Inl (Errorf ''invalid token payload''))"
  by (simp add: HMACToken_Verify_def Sign_split Decode_Encode Let_def)

lemma Verify_Sign:
  assumes "CHR '':'' \<notin> set key"
    and "- (2 ^ 63) \<le> Unix (now + expires)" and "Unix (now + expires) < 2 ^ 63"
    and "now' \<le> now + expires"
  shows "HMACToken_Verify mac secret now' (HMACToken_Sign mac secret now key expires) = Inr key"
proof -
  have "SplitN2 (key @ '':'' @ show_int (Unix (now + expires))) CHR '':''
          = [key, show_int (Unix (now + expires))]"
    using SplitN2_first [OF assms(1)] by simp
  moreover have "ParseInt (show_int (Unix (now + expires))) = Inr (Unix (now + expires))"
    using assms(2,3) by (rule ParseInt_show_int)
  moreover have "\<not> Unix now' > Unix (now + expires)"
    using Unix_mono [OF assms(4)] by simp
  ultimately show ?thesis by (simp add: Verify_Sign_payload)
qed

lemma Verify_Sign_expired:
  assumes "CHR '':'' \<notin> set key"
    and "- (2 ^ 63) \<le> Unix (now + expires)" and "Unix (now + expires) < 2 ^ 63"
    and "Unix (now + expires) < Unix now'"
  shows "HMACToken_Verify mac secret now' (HMACToken_Sign mac secret now key expires)
           = Inl (Errorf ''token expired'')"
proof -
  have "SplitN2 (key @ '':'' @ show_int (Unix (now + expires))) CHR '':''
          = [key, show_int (Unix (now + expires))]"
    using SplitN2_first [OF assms(1)] by simp
  moreover have "ParseInt (show_int (Unix (now + expires))) = Inr (Unix (now + expires))"
    using assms(2,3) by (rule ParseInt_show_int)
  ultimately show ?thesis using assms(4) by (simp add: Verify_Sign_payload)
qed

lemma is_uuid_chars:
  assumes "is_uuid s" and "c \<in> set s"
  shows "c = CHR ''-'' \<or> char_between CHR ''0'' CHR ''9'' c \<or> char_between CHR ''a'' CHR ''f'' c"
proof -
  from assms(2) obtain i where i: "i < length s" "s ! i = c" by (auto simp: in_set_conv_nth)
  from assms(1) have l: "length s = 36" by (simp add: is_uuid_def)
  with i have "(i, c) \<in> set (zip [0 ..< 36] s)"
    by (auto simp: set_zip intro!: exI [of _ i])
  with assms(1) show ?thesis
    by (auto simp: is_uuid_def list_all_iff split: if_splits)
qed

lemma report_key_no_colon:
  assumes "is_report_key key"
  shows "CHR '':'' \<notin> set key"
proof
  assume "CHR '':'' \<in> set key"
  then have "CHR '':'' \<in> set (take 36 key @ drop 36 key)" by simp
  then have "CHR '':'' \<in> set (take 36 key) \<or> CHR '':'' \<in> set (drop 36 key)"
    by (simp only: set_append Un_iff)
  moreover have "CHR '':'' \<notin> set (drop 36 key)" using assms by (simp add: is_report_key_def)
  ultimately have "CHR '':'' \<in> set (take 36 key)" by blast
  with assms have "CHR '':'' = CHR ''-'' \<or> char_between CHR ''0'' CHR ''9'' CHR '':''
      \<or> char_between CHR ''a'' CHR ''f'' CHR '':''"
    using is_uuid_chars [of "take 36 key" "CHR '':''"] by (simp add: is_report_key_def)
  then show False by (simp add: char_between_def)
qed

lemma Verify_accepts_only:
  assumes "HMACToken_Verify mac secret now token = Inr key"
  shows "\<exists>p sig payload expiry e.
           SplitN2 token CHR ''.'' = [p, sig] \<and> sig = EncodeToString (mac secret p)
           \<and> DecodeString p = Inr payload \<and> SplitN2 payload CHR '':'' = [key, expiry]
           \<and> ParseInt expiry = Inr e \<and> Unix now \<le> e"
  using assms
  by (auto simp: HMACToken_Verify_def Let_def split: list.splits sum.splits if_splits)

lemma report_key_example: "is_report_key ''3f2b8c1e-5d4a-4e6b-9c7d-1a2b3c4d5e6f.pdf''"
  by code_simp

text \<open>
  C7.  For every report key, a token signed at \<open>now\<close> with lifetime \<open>expires\<close> and
  verified no later than \<open>now + expires\<close> yields exactly that key.  A token whose second
  part is not the encoded tag of its first part is rejected as having an invalid
  signature.  A token that Verify accepts has a matching tag and an embedded expiry that
  is not before the current second, so a token whose embedded expiry is in the past is
  rejected; for a token of Sign the error is "token expired".  The expiry is an int64, as
  \<open>Time.Unix\<close> returns it.
\<close>

theorem HMACToken_roundtrip_and_rejection:
  "(is_report_key key \<and> - (2 ^ 63) \<le> Unix (now + expires) \<and> Unix (now + expires) < 2 ^ 63
      \<and> now' \<le> now + expires \<longrightarrow>
      HMACToken_Verify mac secret now' (HMACToken_Sign mac secret now key expires) = Inr key)
   \<and> (is_report_key key \<and> - (2 ^ 63) \<le> Unix (now + expires) \<and> Unix (now + expires) < 2 ^ 63
      \<and> Unix (now + expires) < Unix now' \<longrightarrow>
      HMACToken_Verify mac secret now' (HMACToken_Sign mac secret now key expires)
        = Inl (Errorf ''token expired''))
   \<and> (SplitN2 token CHR ''.'' = [p, sig] \<and> sig \<noteq> EncodeToString (mac secret p) \<longrightarrow>
      HMACToken_Verify mac secret now' token = Inl (Errorf ''invalid token signature''))
   \<and> (HMACToken_Verify mac secret now' token = Inr k \<longrightarrow>
      (\<exists>p sig payload expiry e.
           SplitN2 token CHR ''.'' = [p, sig] \<and> sig = EncodeToString (mac secret p)
           \<and> DecodeString p = Inr payload \<and> SplitN2 payload CHR '':'' = [k, expiry]
           \<and> ParseInt expiry = Inr e \<and> Unix now' \<le> e))"
proof -
  have 1: "is_report_key key \<and> - (2 ^ 63) \<le> Unix (now + expires) \<and> Unix (now + expires) < 2 ^ 63
      \<and> now' \<le> now + expires \<longrightarrow>
      HMACToken_Verify mac secret now' (HMACToken_Sign mac secret now key expires) = Inr key"
    using Verify_Sign report_key_no_colon by blast
  have 2: "is_report_key key \<and> - (2 ^ 63) \<le> Unix (now + expires) \<and> Unix (now + expires) < 2 ^ 63
      \<and> Unix (now + expires) < Unix now' \<longrightarrow>
      HMACToken_Verify mac secret now' (HMACToken_Sign mac secret now key expires)
        = Inl (Errorf ''token expired'')"
    using Verify_Sign_expired report_key_no_colon by blast
  have 3: "SplitN2 token CHR ''.'' = [p, sig] \<and> sig \<noteq> EncodeToString (mac secret p) \<longrightarrow>
      HMACToken_Verify mac secret now' token = Inl (Errorf ''invalid token signature'')"
    by (simp add: HMACToken_Verify_def)
  have 4: "HMACToken_Verify mac secret now' token = Inr k \<longrightarrow>
      (\<exists>p sig payload expiry e.
           SplitN2 token CHR ''.'' = [p, sig] \<and> sig = EncodeToString (mac secret p)
           \<and> DecodeString p = Inr payload \<and> SplitN2 payload CHR '':'' = [k, expiry]
           \<and> ParseInt expiry = Inr e \<and> Unix now' \<le> e)"
    using Verify_accepts_only by blast
  from 1 2 3 4 show ?thesis by blast
qed

theorem HMACToken_roundtrip_and_rejection_witness:
  "is_report_key ''3f2b8c1e-5d4a-4e6b-9c7d-1a2b3c4d5e6f.pdf''
   \<and> HMACToken_Verify (@) ''secret'' 1700000060000000000
      (HMACToken_Sign (@) ''secret'' 1700000000000000000 ''3f2b8c1e-5d4a-4e6b-9c7d-1a2b3c4d5e6f.pdf''
         86400000000000)
      = Inr ''3f2b8c1e-5d4a-4e6b-9c7d-1a2b3c4d5e6f.pdf''
   \<and> HMACToken_Verify (@) ''secret'' 1700090000000000000
      (HMACToken_Sign (@) ''secret'' 1700000000000000000 ''3f2b8c1e-5d4a-4e6b-9c7d-1a2b3c4d5e6f.pdf''
         86400000000000)
      = Inl (Errorf ''token expired'')
   \<and> HMACToken_Verify (@) ''secret'' 1700000060000000000 ''abc.def''
      = Inl (Errorf ''invalid token signature'')
   \<and> (\<exists>p sig payload expiry e.
         SplitN2 (HMACToken_Sign (@) ''secret'' 1700000000000000000
                    ''3f2b8c1e-5d4a-4e6b-9c7d-1a2b3c4d5e6f.pdf'' 86400000000000) CHR ''.'' = [p, sig]
         \<and> sig = EncodeToString (''secret'' @ p)
         \<and> DecodeString p = Inr payload
         \<and> SplitN2 payload CHR '':'' = [''3f2b8c1e-5d4a-4e6b-9c7d-1a2b3c4d5e6f.pdf'', expiry]
         \<and> ParseInt expiry = Inr e \<and> Unix 1700000060000000000 \<le> e)"
proof -
  let ?key = "''3f2b8c1e-5d4a-4e6b-9c7d-1a2b3c4d5e6f.pdf''"
  have a: "is_report_key ?key \<and> - (2 ^ 63) \<le> Unix (1700000000000000000 + 86400000000000)
      \<and> Unix (1700000000000000000 + 86400000000000) < 2 ^ 63
      \<and> (1700000060000000000::int) \<le> 1700000000000000000 + 86400000000000"
    by (simp add: Unix_def report_key_example)
  have b: "Unix (1700000000000000000 + 86400000000000) < Unix 1700090000000000000"
    by (simp add: Unix_def)
  have c: "SplitN2 ''abc.def'' CHR ''.'' = [''abc'', ''def''] \<and> ''def'' \<noteq> EncodeToString (''secret'' @ ''abc'')"
    by (simp add: SplitN2_def)
  have 1: "HMACToken_Verify (@) ''secret'' 1700000060000000000
      (HMACToken_Sign (@) ''secret'' 1700000000000000000 ?key 86400000000000) = Inr ?key"
    using a HMACToken_roundtrip_and_rejection
      [of ?key 1700000000000000000 86400000000000 1700000060000000000 "(@)" "''secret''"]
    by blast
  have 2: "HMACToken_Verify (@) ''secret'' 1700090000000000000
      (HMACToken_Sign (@) ''secret'' 1700000000000000000 ?key 86400000000000)
        = Inl (Errorf ''token expired'')"
    using a b HMACToken_roundtrip_and_rejection
      [of ?key 1700000000000000000 86400000000000 1700090000000000000 "(@)" "''secret''"]
    by blast
  have 3: "HMACToken_Verify (@) ''secret'' 1700000060000000000 ''abc.def''
      = Inl (Errorf ''invalid token signature'')"
    using c HMACToken_roundtrip_and_rejection
      [of _ _ _ 1700000060000000000 "(@)" "''secret''" "''abc.def''" "''abc''" "''def''"]
    by blast
  have 4: "\<exists>p sig payload expiry e.
         SplitN2 (HMACToken_Sign (@) ''secret'' 1700000000000000000 ?key 86400000000000) CHR ''.''
           = [p, sig]
         \<and> sig = EncodeToString (''secret'' @ p)
         \<and> DecodeString p = Inr payload \<and> SplitN2 payload CHR '':'' = [?key, expiry]
         \<and> ParseInt expiry = Inr e \<and> Unix 1700000060000000000 \<le> e"
    using 1 HMACToken_roundtrip_and_rejection [of _ _ _ 1700000060000000000 "(@)" "''secret''"
        "HMACToken_Sign (@) ''secret'' 1700000000000000000 ?key 86400000000000" _ _ ?key]
    by blast
  from a 1 2 3 4 show ?thesis by blast
qed

section \<open>Message bus: retry and dead-lettering\<close>

lemma handle_success: "Subscribe_handle q None outcome ch msg = (Ack, ch)"
  by (simp add: Subscribe_handle_def)

lemma handle_dlq:
  assumes "map_of (Headers msg) ''x-retry-count'' = Some (VInt32 n)" "3 \<le> sint n"
  shows "Subscribe_handle q (Some err) outcome ch msg =
     ((if outcome = None then Ack else Nack False),
      ch @ [(DLQExchangeName, [],
             \<lparr> Headers = [(''x-original-queue'', VString q),
                           (''x-original-routing'', VString (RoutingKey msg)),
                           (''x-retry-count'', VInt32 n),
                           (''x-last-error'', VString (Error err)),
                           (''x-failed-timestamp'', VTime (Timestamp msg))],
               ContentType = ContentType msg, DeliveryMode = Persistent,
               Timestamp = zero_time, Body = Body msg \<rparr>, outcome)])"
  using assms
  by (simp add: Subscribe_handle_def PublishWithContext_def MaxRetries_def split: option.splits)

lemma handle_retry:
  assumes "map_of (Headers msg) ''x-retry-count'' = Some (VInt32 n)" "sint n < 3"
  shows "Subscribe_handle q (Some err) outcome ch msg =
     ((if outcome = None then Ack else Nack True),
      ch @ [(ExchangeName, RoutingKey msg,
             \<lparr> Headers = [(''x-retry-count'', VInt32 (n + 1))],
               ContentType = ContentType msg, DeliveryMode = Persistent,
               Timestamp = zero_time, Body = Body msg \<rparr>, outcome)])"
  using assms
  by (simp add: Subscribe_handle_def PublishWithContext_def MaxRetries_def split: option.splits)

lemma handle_retry_default:
  assumes "\<forall>n. map_of (Headers msg) ''x-retry-count'' \<noteq> Some (VInt32 n)"
  shows "Subscribe_handle q (Some err) outcome ch msg =
     ((if outcome = None then Ack else Nack True),
      ch @ [(ExchangeName, RoutingKey msg,
             \<lparr> Headers = [(''x-retry-count'', VInt32 1)],
               ContentType = ContentType msg, DeliveryMode = Persistent,
               Timestamp = zero_time, Body = Body msg \<rparr>, outcome)])"
  using assms
  by (simp add: Subscribe_handle_def PublishWithContext_def MaxRetries_def
      split: option.splits amqp_value.splits)


lemma loop_step:
  "Subscribe_loop q rks ((handled, outcome) # steps) \<lparr> queue = msg # rest, chan = ch, settled = ds \<rparr> =
     Subscribe_loop q rks steps
       \<lparr> queue = (if fst (Subscribe_handle q handled outcome ch msg) = Nack True then msg # rest else rest)
                  @ route rks (drop (length ch) (snd (Subscribe_handle q handled outcome ch msg))),
         chan = snd (Subscribe_handle q handled outcome ch msg),
         settled = ds @ [fst (Subscribe_handle q handled outcome ch msg)] \<rparr>"
  by (simp split: prod.splits)

lemma route_accepted:
  "key \<in> set rks \<Longrightarrow>
   route rks [(ExchangeName, key, p, None)] =
     [\<lparr> Headers = Headers p, ContentType = ContentType p, DeliveryMode = DeliveryMode p,
        Timestamp = Timestamp p, Body = Body p, Exchange = ExchangeName, RoutingKey = key \<rparr>]"
  by (simp add: route_def)

lemma route_dlq: "route rks [(DLQExchangeName, key, p, outcome)] = []"
  by (simp add: route_def DLQExchangeName_def ExchangeName_def)

lemma retry_step:
  assumes "key \<in> set rks" "sint n < 3"
  shows "Subscribe_loop q rks ((Some err, None) # steps)
           \<lparr> queue = [\<lparr> Headers = [(''x-retry-count'', VInt32 n)], ContentType = ct,
                        DeliveryMode = dm, Timestamp = ts, Body = body,
                        Exchange = ex, RoutingKey = key \<rparr>],
             chan = ch, settled = ds \<rparr>
         = Subscribe_loop q rks steps
           \<lparr> queue = [\<lparr> Headers = [(''x-retry-count'', VInt32 (n + 1))], ContentType = ct,
                        DeliveryMode = Persistent, Timestamp = zero_time, Body = body,
                        Exchange = ExchangeName, RoutingKey = key \<rparr>],
             chan = ch @ [(ExchangeName, key,
                           \<lparr> Headers = [(''x-retry-count'', VInt32 (n + 1))], ContentType = ct,
                             DeliveryMode = Persistent, Timestamp = zero_time, Body = body \<rparr>, None)],
             settled = ds @ [Ack] \<rparr>"
  unfolding loop_step
  using handle_retry [of "\<lparr> Headers = [(''x-retry-count'', VInt32 n)], ContentType = ct,
                        DeliveryMode = dm, Timestamp = ts, Body = body,
                        Exchange = ex, RoutingKey = key \<rparr>" n q err None ch] assms
  by (simp add: route_accepted)

lemma first_step:
  assumes "RoutingKey msg \<in> set rks" "\<forall>n. map_of (Headers msg) ''x-retry-count'' \<noteq> Some (VInt32 n)"
  shows "Subscribe_loop q rks ((Some err, None) # steps) \<lparr> queue = [msg], chan = ch, settled = ds \<rparr>
         = Subscribe_loop q rks steps
           \<lparr> queue = [\<lparr> Headers = [(''x-retry-count'', VInt32 1)], ContentType = ContentType msg,
                        DeliveryMode = Persistent, Timestamp = zero_time, Body = Body msg,
                        Exchange = ExchangeName, RoutingKey = RoutingKey msg \<rparr>],
             chan = ch @ [(ExchangeName, RoutingKey msg,
                           \<lparr> Headers = [(''x-retry-count'', VInt32 1)], ContentType = ContentType msg,
                             DeliveryMode = Persistent, Timestamp = zero_time, Body = Body msg \<rparr>, None)],
             settled = ds @ [Ack] \<rparr>"
  unfolding loop_step
  using handle_retry_default [OF assms(2), of q err None ch] assms(1)
  by (simp add: route_accepted)

lemma dlq_step:
  assumes "3 \<le> sint n"
  shows "Subscribe_loop q rks ((Some err, None) # steps)
           \<lparr> queue = [\<lparr> Headers = [(''x-retry-count'', VInt32 n)], ContentType = ct,
                        DeliveryMode = dm, Timestamp = ts, Body = body,
                        Exchange = ex, RoutingKey = key \<rparr>],
             chan = ch, settled = ds \<rparr>
         = Subscribe_loop q rks steps
           \<lparr> queue = [],
             chan = ch @ [(DLQExchangeName, [],
                           \<lparr> Headers = [(''x-original-queue'', VString q),
                                         (''x-original-routing'', VString key),
                                         (''x-retry-count'', VInt32 n),
                                         (''x-last-error'', VString (Error err)),
                                         (''x-failed-timestamp'', VTime ts)],
                             ContentType = ct, DeliveryMode = Persistent,
                             Timestamp = zero_time, Body = body \<rparr>, None)],
             settled = ds @ [Ack] \<rparr>"
  unfolding loop_step
  using handle_dlq [of "\<lparr> Headers = [(''x-retry-count'', VInt32 n)], ContentType = ct,
                        DeliveryMode = dm, Timestamp = ts, Body = body,
                        Exchange = ex, RoutingKey = key \<rparr>" n q err None ch] assms
  by (simp add: route_dlq)

lemma success_step:
  "Subscribe_loop q rks ((None, outcome) # steps) \<lparr> queue = [msg], chan = ch, settled = ds \<rparr>
     = Subscribe_loop q rks steps \<lparr> queue = [], chan = ch, settled = ds @ [Ack] \<rparr>"
  unfolding loop_step by (simp add: handle_success route_def)

lemma three_failures_then_success:
  assumes "RoutingKey msg \<in> set rks" "\<forall>n. map_of (Headers msg) ''x-retry-count'' \<noteq> Some (VInt32 n)"
  shows "Subscribe_loop q rks [(Some e1, None), (Some e2, None), (Some e3, None), (None, None)]
           \<lparr> queue = [msg], chan = [], settled = [] \<rparr>
         = \<lparr> queue = [],
             chan = [(ExchangeName, RoutingKey msg,
                      \<lparr> Headers = [(''x-retry-count'', VInt32 1)], ContentType = ContentType msg,
                        DeliveryMode = Persistent, Timestamp = zero_time, Body = Body msg \<rparr>, None),
                     (ExchangeName, RoutingKey msg,
                      \<lparr> Headers = [(''x-retry-count'', VInt32 2)], ContentType = ContentType msg,
                        DeliveryMode = Persistent, Timestamp = zero_time, Body = Body msg \<rparr>, None),
                     (ExchangeName, RoutingKey msg,
                      \<lparr> Headers = [(''x-retry-count'', VInt32 3)], ContentType = ContentType msg,
                        DeliveryMode = Persistent, Timestamp = zero_time, Body = Body msg \<rparr>, None)],
             settled = [Ack, Ack, Ack, Ack] \<rparr>"
proof -
  have s1: "sint (1 :: 32 word) < 3" and s2: "sint (2 :: 32 word) < 3" by simp_all
  show ?thesis
    unfolding first_step [OF assms]
    by (simp add: retry_step [OF assms(1) s1] retry_step [OF assms(1) s2] success_step
        del: Subscribe_loop.simps(2))
qed

lemma four_failures:
  assumes "RoutingKey msg \<in> set rks" "\<forall>n. map_of (Headers msg) ''x-retry-count'' \<noteq> Some (VInt32 n)"
  shows "Subscribe_loop q rks [(Some e1, None), (Some e2, None), (Some e3, None), (Some e4, None)]
           \<lparr> queue = [msg], chan = [], settled = [] \<rparr>
         = \<lparr> queue = [],
             chan = [(ExchangeName, RoutingKey msg,
                      \<lparr> Headers = [(''x-retry-count'', VInt32 1)], ContentType = ContentType msg,
                        DeliveryMode = Persistent, Timestamp = zero_time, Body = Body msg \<rparr>, None),
                     (ExchangeName, RoutingKey msg,
                      \<lparr> Headers = [(''x-retry-count'', VInt32 2)], ContentType = ContentType msg,
                        DeliveryMode = Persistent, Timestamp = zero_time, Body = Body msg \<rparr>, None),
                     (ExchangeName, RoutingKey msg,
                      \<lparr> Headers = [(''x-retry-count'', VInt32 3)], ContentType = ContentType msg,
                        DeliveryMode = Persistent, Timestamp = zero_time, Body = Body msg \<rparr>, None),
                     (DLQExchangeName, [],
                      \<lparr> Headers = [(''x-original-queue'', VString q),
                                    (''x-original-routing'', VString (RoutingKey msg)),
                                    (''x-retry-count'', VInt32 MaxRetries),
                                    (''x-last-error'', VString (Error e4)),
                                    (''x-failed-timestamp'', VTime zero_time)],
                        ContentType = ContentType msg, DeliveryMode = Persistent,
                        Timestamp = zero_time, Body = Body msg \<rparr>, None)],
             settled = [Ack, Ack, Ack, Ack] \<rparr>"
proof -
  have s1: "sint (1 :: 32 word) < 3" and s2: "sint (2 :: 32 word) < 3"
    and s3: "3 \<le> sint (3 :: 32 word)" by simp_all
  show ?thesis
    unfolding first_step [OF assms]
    by (simp add: retry_step [OF assms(1) s1] retry_step [OF assms(1) s2] dlq_step [OF s3]
        MaxRetries_def del: Subscribe_loop.simps(2))
qed


text \<open>
  C1, as the code has it.  A delivery whose handler succeeds is acknowledged and nothing
  is published.  When the handler fails on a delivery whose x-retry-count header holds an
  int32 of at least 3, exactly one message is published, to the dead-letter exchange,
  with the delivery's content type and body and headers naming the queue, the delivery's
  routing key, its retry count, the handler's error and the delivery's timestamp; the
  delivery is acknowledged when the broker accepts that message and rejected without
  requeue when it does not.  When the count is below 3, or the header is absent or not an
  int32 (count 0), exactly one message is published, to the events exchange under the
  delivery's routing key, with the count plus one as its only header; the delivery is
  acknowledged when the broker accepts it and returned with requeue when it does not.
  So, with a broker that accepts every publish, a fresh message whose handler fails
  three times and then succeeds is settled by four acknowledgements and three republishes
  and nothing reaches the dead-letter exchange; when the handler fails a fourth time, one
  dead-letter message follows the three republishes, carrying the routing key and a retry
  count equal to MaxRetries.
\<close>

theorem Subscribe_retry_and_dead_letter:
  "Subscribe_handle q None outcome ch msg = (Ack, ch)
   \<and> (map_of (Headers msg) ''x-retry-count'' = Some (VInt32 n) \<and> 3 \<le> sint n \<longrightarrow>
        Subscribe_handle q (Some err) outcome ch msg =
          ((if outcome = None then Ack else Nack False),
           ch @ [(DLQExchangeName, [],
                  \<lparr> Headers = [(''x-original-queue'', VString q),
                                (''x-original-routing'', VString (RoutingKey msg)),
                                (''x-retry-count'', VInt32 n),
                                (''x-last-error'', VString (Error err)),
                                (''x-failed-timestamp'', VTime (Timestamp msg))],
                    ContentType = ContentType msg, DeliveryMode = Persistent,
                    Timestamp = zero_time, Body = Body msg \<rparr>, outcome)]))
   \<and> (map_of (Headers msg) ''x-retry-count'' = Some (VInt32 n) \<and> sint n < 3 \<longrightarrow>
        Subscribe_handle q (Some err) outcome ch msg =
          ((if outcome = None then Ack else Nack True),
           ch @ [(ExchangeName, RoutingKey msg,
                  \<lparr> Headers = [(''x-retry-count'', VInt32 (n + 1))],
                    ContentType = ContentType msg, DeliveryMode = Persistent,
                    Timestamp = zero_time, Body = Body msg \<rparr>, outcome)]))
   \<and> ((\<forall>k. map_of (Headers msg) ''x-retry-count'' \<noteq> Some (VInt32 k)) \<longrightarrow>
        Subscribe_handle q (Some err) outcome ch msg =
          ((if outcome = None then Ack else Nack True),
           ch @ [(ExchangeName, RoutingKey msg,
                  \<lparr> Headers = [(''x-retry-count'', VInt32 1)],
                    ContentType = ContentType msg, DeliveryMode = Persistent,
                    Timestamp = zero_time, Body = Body msg \<rparr>, outcome)]))
   \<and> (RoutingKey msg \<in> set rks \<and> (\<forall>k. map_of (Headers msg) ''x-retry-count'' \<noteq> Some (VInt32 k)) \<longrightarrow>
        Subscribe_loop q rks [(Some e1, None), (Some e2, None), (Some e3, None), (None, None)]
           \<lparr> queue = [msg], chan = [], settled = [] \<rparr>
         = \<lparr> queue = [],
             chan = [(ExchangeName, RoutingKey msg,
                      \<lparr> Headers = [(''x-retry-count'', VInt32 1)], ContentType = ContentType msg,
                        DeliveryMode = Persistent, Timestamp = zero_time, Body = Body msg \<rparr>, None),
                     (ExchangeName, RoutingKey msg,
                      \<lparr> Headers = [(''x-retry-count'', VInt32 2)], ContentType = ContentType msg,
                        DeliveryMode = Persistent, Timestamp = zero_time, Body = Body msg \<rparr>, None),
                     (ExchangeName, RoutingKey msg,
                      \<lparr> Headers = [(''x-retry-count'', VInt32 3)], ContentType = ContentType msg,
                        DeliveryMode = Persistent, Timestamp = zero_time, Body = Body msg \<rparr>, None)],
             settled = [Ack, Ack, Ack, Ack] \<rparr>
        \<and> Subscribe_loop q rks [(Some e1, None), (Some e2, None), (Some e3, None), (Some e4, None)]
           \<lparr> queue = [msg], chan = [], settled = [] \<rparr>
         = \<lparr> queue = [],
             chan = [(ExchangeName, RoutingKey msg,
                      \<lparr> Headers = [(''x-retry-count'', VInt32 1)], ContentType = ContentType msg,
                        DeliveryMode = Persistent, Timestamp = zero_time, Body = Body msg \<rparr>, None),
                     (ExchangeName, RoutingKey msg,
                      \<lparr> Headers = [(''x-retry-count'', VInt32 2)], ContentType = ContentType msg,
                        DeliveryMode = Persistent, Timestamp = zero_time, Body = Body msg \<rparr>, None),
                     (ExchangeName, RoutingKey msg,
                      \<lparr> Headers = [(''x-retry-count'', VInt32 3)], ContentType = ContentType msg,
                        DeliveryMode = Persistent, Timestamp = zero_time, Body = Body msg \<rparr>, None),
                     (DLQExchangeName, [],
                      \<lparr> Headers = [(''x-original-queue'', VString q),
                                    (''x-original-routing'', VString (RoutingKey msg)),
                                    (''x-retry-count'', VInt32 MaxRetries),
                                    (''x-last-error'', VString (Error e4)),
                                    (''x-failed-timestamp'', VTime zero_time)],
                        ContentType = ContentType msg, DeliveryMode = Persistent,
                        Timestamp = zero_time, Body = Body msg \<rparr>, None)],
             settled = [Ack, Ack, Ack, Ack] \<rparr>)
   \<and> DLQExchangeName \<noteq> ExchangeName"
  using handle_success [of q outcome ch msg] handle_dlq [of msg n q err outcome ch]
    handle_retry [of msg n q err outcome ch] handle_retry_default [of msg q err outcome ch]
    three_failures_then_success [of msg rks q e1 e2 e3] four_failures [of msg rks q e1 e2 e3 e4]
  by (simp add: DLQExchangeName_def ExchangeName_def)

theorem Subscribe_retry_and_dead_letter_witness:
  "Subscribe_handle ''q_aml_requests'' (Some (Errorf ''boom'')) None []
      \<lparr> Headers = [(''x-retry-count'', VInt32 3)], ContentType = ''application/json'',
        DeliveryMode = 2, Timestamp = 77, Body = ''{}'', Exchange = ExchangeName,
        RoutingKey = ''aml.check.requested'' \<rparr>
     = (Ack, [(DLQExchangeName, [],
               \<lparr> Headers = [(''x-original-queue'', VString ''q_aml_requests''),
                             (''x-original-routing'', VString ''aml.check.requested''),
                             (''x-retry-count'', VInt32 3),
                             (''x-last-error'', VString ''boom''),
                             (''x-failed-timestamp'', VTime 77)],
                 ContentType = ''application/json'', DeliveryMode = Persistent,
                 Timestamp = zero_time, Body = ''{}'' \<rparr>, None)])
   \<and> Subscribe_handle ''q_aml_requests'' (Some (Errorf ''boom'')) None []
      \<lparr> Headers = [(''x-retry-count'', VInt32 2)], ContentType = ''application/json'',
        DeliveryMode = 2, Timestamp = 77, Body = ''{}'', Exchange = ExchangeName,
        RoutingKey = ''aml.check.requested'' \<rparr>
     = (Ack, [(ExchangeName, ''aml.check.requested'',
               \<lparr> Headers = [(''x-retry-count'', VInt32 3)],
                 ContentType = ''application/json'', DeliveryMode = Persistent,
                 Timestamp = zero_time, Body = ''{}'' \<rparr>, None)])
   \<and> settled (Subscribe_loop ''q_aml_requests'' [''aml.check.requested'']
        [(Some (Errorf ''e1''), None), (Some (Errorf ''e2''), None), (Some (Errorf ''e3''), None),
         (None, None)]
        \<lparr> queue = [\<lparr> Headers = [], ContentType = ''application/json'',
                      DeliveryMode = 2, Timestamp = zero_time, Body = ''{}'',
                      Exchange = ExchangeName, RoutingKey = ''aml.check.requested'' \<rparr>],
          chan = [], settled = [] \<rparr>) = [Ack, Ack, Ack, Ack]
   \<and> map fst (chan (Subscribe_loop ''q_aml_requests'' [''aml.check.requested'']
        [(Some (Errorf ''e1''), None), (Some (Errorf ''e2''), None), (Some (Errorf ''e3''), None),
         (Some (Errorf ''e4''), None)]
        \<lparr> queue = [\<lparr> Headers = [], ContentType = ''application/json'',
                      DeliveryMode = 2, Timestamp = zero_time, Body = ''{}'',
                      Exchange = ExchangeName, RoutingKey = ''aml.check.requested'' \<rparr>],
          chan = [], settled = [] \<rparr>))
       = [ExchangeName, ExchangeName, ExchangeName, DLQExchangeName]"
proof -
  let ?m3 = "\<lparr> Headers = [(''x-retry-count'', VInt32 3)], ContentType = ''application/json'',
        DeliveryMode = 2, Timestamp = 77, Body = ''{}'', Exchange = ExchangeName,
        RoutingKey = ''aml.check.requested'' \<rparr> :: string Delivery"
  let ?m2 = "\<lparr> Headers = [(''x-retry-count'', VInt32 2)], ContentType = ''application/json'',
        DeliveryMode = 2, Timestamp = 77, Body = ''{}'', Exchange = ExchangeName,
        RoutingKey = ''aml.check.requested'' \<rparr> :: string Delivery"
  let ?m0 = "\<lparr> Headers = [], ContentType = ''application/json'',
        DeliveryMode = 2, Timestamp = zero_time, Body = ''{}'', Exchange = ExchangeName,
        RoutingKey = ''aml.check.requested'' \<rparr> :: string Delivery"
  have h3: "map_of (Headers ?m3) ''x-retry-count'' = Some (VInt32 3) \<and> 3 \<le> sint (3 :: 32 word)"
    by simp
  have h2: "map_of (Headers ?m2) ''x-retry-count'' = Some (VInt32 2) \<and> sint (2 :: 32 word) < 3"
    by simp
  have h0: "RoutingKey ?m0 \<in> set [''aml.check.requested'']
            \<and> (\<forall>k. map_of (Headers ?m0) ''x-retry-count'' \<noteq> Some (VInt32 k))"
    by simp
  have a: "Subscribe_handle ''q_aml_requests'' (Some (Errorf ''boom'')) None [] ?m3 =
          ((if (None :: error option) = None then Ack else Nack False),
           [] @ [(DLQExchangeName, [],
                  \<lparr> Headers = [(''x-original-queue'', VString ''q_aml_requests''),
                                (''x-original-routing'', VString (RoutingKey ?m3)),
                                (''x-retry-count'', VInt32 3),
                                (''x-last-error'', VString (Error (Errorf ''boom''))),
                                (''x-failed-timestamp'', VTime (Timestamp ?m3))],
                    ContentType = ContentType ?m3, DeliveryMode = Persistent,
                    Timestamp = zero_time, Body = Body ?m3 \<rparr>, None)])"
    using h3 Subscribe_retry_and_dead_letter [where msg = ?m3 and n = 3
        and q = "''q_aml_requests''" and err = "Errorf ''boom''" and outcome = None and ch = "[]"]
    by blast
  have b: "Subscribe_handle ''q_aml_requests'' (Some (Errorf ''boom'')) None [] ?m2 =
          ((if (None :: error option) = None then Ack else Nack True),
           [] @ [(ExchangeName, RoutingKey ?m2,
                  \<lparr> Headers = [(''x-retry-count'', VInt32 (2 + 1))],
                    ContentType = ContentType ?m2, DeliveryMode = Persistent,
                    Timestamp = zero_time, Body = Body ?m2 \<rparr>, None)])"
    using h2 Subscribe_retry_and_dead_letter [where msg = ?m2 and n = 2
        and q = "''q_aml_requests''" and err = "Errorf ''boom''" and outcome = None and ch = "[]"]
    by blast
  note t = Subscribe_retry_and_dead_letter [where msg = ?m0
      and q = "''q_aml_requests''" and rks = "[''aml.check.requested'']"
      and ?e1.0 = "Errorf ''e1''" and ?e2.0 = "Errorf ''e2''" and ?e3.0 = "Errorf ''e3''"
      and ?e4.0 = "Errorf ''e4''"]
  have c: "settled (Subscribe_loop ''q_aml_requests'' [''aml.check.requested'']
        [(Some (Errorf ''e1''), None), (Some (Errorf ''e2''), None), (Some (Errorf ''e3''), None),
         (None, None)] \<lparr> queue = [?m0], chan = [], settled = [] \<rparr>) = [Ack, Ack, Ack, Ack]"
  proof -
    from h0 t have "Subscribe_loop ''q_aml_requests'' [''aml.check.requested'']
        [(Some (Errorf ''e1''), None), (Some (Errorf ''e2''), None), (Some (Errorf ''e3''), None),
         (None, None)] \<lparr> queue = [?m0], chan = [], settled = [] \<rparr>
      = \<lparr> queue = [],
          chan = [(ExchangeName, RoutingKey ?m0,
                   \<lparr> Headers = [(''x-retry-count'', VInt32 1)], ContentType = ContentType ?m0,
                     DeliveryMode = Persistent, Timestamp = zero_time, Body = Body ?m0 \<rparr>, None),
                  (ExchangeName, RoutingKey ?m0,
                   \<lparr> Headers = [(''x-retry-count'', VInt32 2)], ContentType = ContentType ?m0,
                     DeliveryMode = Persistent, Timestamp = zero_time, Body = Body ?m0 \<rparr>, None),
                  (ExchangeName, RoutingKey ?m0,
                   \<lparr> Headers = [(''x-retry-count'', VInt32 3)], ContentType = ContentType ?m0,
                     DeliveryMode = Persistent, Timestamp = zero_time, Body = Body ?m0 \<rparr>, None)],
          settled = [Ack, Ack, Ack, Ack] \<rparr>"
      by blast
    then show ?thesis by (simp only: broker.simps)
  qed
  have d: "map fst (chan (Subscribe_loop ''q_aml_requests'' [''aml.check.requested'']
        [(Some (Errorf ''e1''), None), (Some (Errorf ''e2''), None), (Some (Errorf ''e3''), None),
         (Some (Errorf ''e4''), None)] \<lparr> queue = [?m0], chan = [], settled = [] \<rparr>))
       = [ExchangeName, ExchangeName, ExchangeName, DLQExchangeName]"
  proof -
    from h0 t have "Subscribe_loop ''q_aml_requests'' [''aml.check.requested'']
        [(Some (Errorf ''e1''), None), (Some (Errorf ''e2''), None), (Some (Errorf ''e3''), None),
         (Some (Errorf ''e4''), None)] \<lparr> queue = [?m0], chan = [], settled = [] \<rparr>
      = \<lparr> queue = [],
          chan = [(ExchangeName, RoutingKey ?m0,
                   \<lparr> Headers = [(''x-retry-count'', VInt32 1)], ContentType = ContentType ?m0,
                     DeliveryMode = Persistent, Timestamp = zero_time, Body = Body ?m0 \<rparr>, None),
                  (ExchangeName, RoutingKey ?m0,
                   \<lparr> Headers = [(''x-retry-count'', VInt32 2)], ContentType = ContentType ?m0,
                     DeliveryMode = Persistent, Timestamp = zero_time, Body = Body ?m0 \<rparr>, None),
                  (ExchangeName, RoutingKey ?m0,
                   \<lparr> Headers = [(''x-retry-count'', VInt32 3)], ContentType = ContentType ?m0,
                     DeliveryMode = Persistent, Timestamp = zero_time, Body = Body ?m0 \<rparr>, None),
                  (DLQExchangeName, [],
                   \<lparr> Headers = [(''x-original-queue'', VString ''q_aml_requests''),
                                 (''x-original-routing'', VString (RoutingKey ?m0)),
                                 (''x-retry-count'', VInt32 MaxRetries),
                                 (''x-last-error'', VString (Error (Errorf ''e4''))),
                                 (''x-failed-timestamp'', VTime zero_time)],
                     ContentType = ContentType ?m0, DeliveryMode = Persistent,
                     Timestamp = zero_time, Body = Body ?m0 \<rparr>, None)],
          settled = [Ack, Ack, Ack, Ack] \<rparr>"
      by blast
    then show ?thesis by (simp only: broker.simps list.map fst_conv)
  qed
  from a b c d show ?thesis by (simp del: Subscribe_loop.simps)
qed

text \<open>
  A failed delivery at or above the limit is not always acknowledged, and its retry count
  is not always MaxRetries: with a count of 5 and a broker that refuses the dead-letter
  publish, the delivery is rejected without requeue and the message that was offered
  carries the count 5.
\<close>

theorem dead_letter_publish_rejected:
  "Subscribe_handle ''q_aml_requests'' (Some (Errorf ''boom'')) (Some (Errorf ''channel closed'')) []
      \<lparr> Headers = [(''x-retry-count'', VInt32 5)], ContentType = ''application/json'',
        DeliveryMode = 2, Timestamp = 77, Body = ''{}'', Exchange = ExchangeName,
        RoutingKey = ''aml.check.requested'' \<rparr>
     = (Nack False,
        [(DLQExchangeName, [],
          \<lparr> Headers = [(''x-original-queue'', VString ''q_aml_requests''),
                        (''x-original-routing'', VString ''aml.check.requested''),
                        (''x-retry-count'', VInt32 5),
                        (''x-last-error'', VString ''boom''),
                        (''x-failed-timestamp'', VTime 77)],
            ContentType = ''application/json'', DeliveryMode = Persistent,
            Timestamp = zero_time, Body = ''{}'' \<rparr>, Some (Errorf ''channel closed''))])
   \<and> VInt32 5 \<noteq> VInt32 MaxRetries"
  by (simp add: Subscribe_handle_def PublishWithContext_def MaxRetries_def)


section \<open>Bounded wait and status query\<close>

lemma GetCheckStatus_Inr:
  "GetCheckStatusUseCase_Execute now r checkID = Inr c \<longleftrightarrow>
     map_of r checkID = Some c \<and> \<not> ExpiresAt c < now"
  by (auto simp: GetCheckStatusUseCase_Execute_def MemoryCheckRepository_Get_def IsExpired_def
      split: option.splits)

lemma wait_skip:
  assumes "\<forall>(now, r) \<in> set pre. \<forall>c. GetCheckStatusUseCase_Execute now r checkID = Inr c
             \<longrightarrow> Status c = StatusProcessing"
  shows "CheckAddress_wait mac h checkID (pre @ polls) = CheckAddress_wait mac h checkID polls"
  using assms
proof (induction pre)
  case Nil
  then show ?case by simp
next
  case (Cons p pre)
  obtain now r where p: "p = (now, r)" by (cases p)
  from Cons.prems have rest: "\<forall>(now, r) \<in> set pre. \<forall>c. GetCheckStatusUseCase_Execute now r checkID = Inr c
             \<longrightarrow> Status c = StatusProcessing" by simp
  from Cons.prems p have here: "\<forall>c. GetCheckStatusUseCase_Execute now r checkID = Inr c
             \<longrightarrow> Status c = StatusProcessing" by simp
  show ?case
  proof (cases "GetCheckStatusUseCase_Execute now r checkID")
    case (Inl err)
    then show ?thesis using p Cons.IH [OF rest] by simp
  next
    case (Inr c)
    with here have "Status c = StatusProcessing" by simp
    then show ?thesis using p Inr Cons.IH [OF rest] by simp
  qed
qed

lemma wait_timeout:
  assumes "\<forall>(now, r) \<in> set polls. \<forall>c. GetCheckStatusUseCase_Execute now r checkID = Inr c
             \<longrightarrow> Status c = StatusProcessing"
  shows "CheckAddress_wait mac h checkID polls =
     (StatusAccepted, CheckAddressAcceptedResponse ''processing''
          ''Check is being processed. Use the poll_url to check status.''
          (apiURL h @ ''/v1/check-address/'' @ checkID))"
  using wait_skip [OF assms, of mac h "[]"] by (simp add: respondJSON_def)

lemma wait_completed:
  assumes "\<forall>(now, r) \<in> set pre. \<forall>c. GetCheckStatusUseCase_Execute now r checkID = Inr c
             \<longrightarrow> Status c = StatusProcessing"
    and "GetCheckStatusUseCase_Execute now r checkID = Inr c" "Status c = StatusCompleted"
  shows "CheckAddress_wait mac h checkID (pre @ (now, r) # post) =
     (StatusOK, CheckAddressResponse ''success'' (RiskScore c) (RiskLevel c) (Categories c)
        (ToSanctionsDTO (Sanctions c))
        (apiURL h @ ''/v1/report/'' @ HMACToken_Sign mac (tokenSecret h) now (ReportKey c) (24 * Hour)))"
  unfolding wait_skip [OF assms(1)] using assms(2,3)
  by (simp add: respondCheckResult_def respondJSON_def)

lemma wait_failed:
  assumes "\<forall>(now, r) \<in> set pre. \<forall>c. GetCheckStatusUseCase_Execute now r checkID = Inr c
             \<longrightarrow> Status c = StatusProcessing"
    and "GetCheckStatusUseCase_Execute now r checkID = Inr c" "Status c = StatusFailed"
  shows "CheckAddress_wait mac h checkID (pre @ (now, r) # post) =
     (StatusBadGateway, ErrorResponse (''AML check failed: '' @ ErrorMessage c))"
  unfolding wait_skip [OF assms(1)] using assms(2,3)
  by (simp add: respondError_def respondJSON_def)

lemma query_completed:
  assumes "checkID \<noteq> []" "GetCheckStatusUseCase_Execute now r checkID = Inr c"
    "Status c = StatusCompleted"
  shows "Handlers_GetCheckStatus mac h now r checkID =
     (StatusOK, CheckAddressResponse ''success'' (RiskScore c) (RiskLevel c) (Categories c)
        (ToSanctionsDTO (Sanctions c))
        (apiURL h @ ''/v1/report/'' @ HMACToken_Sign mac (tokenSecret h) now (ReportKey c) (24 * Hour)))"
  using assms by (simp add: Handlers_GetCheckStatus_def respondCheckResult_def respondJSON_def)

lemma query_failed:
  assumes "checkID \<noteq> []" "GetCheckStatusUseCase_Execute now r checkID = Inr c"
    "Status c = StatusFailed"
  shows "Handlers_GetCheckStatus mac h now r checkID =
     (StatusInternalServerError, ErrorResponse (''check failed: '' @ ErrorMessage c))"
  using assms by (simp add: Handlers_GetCheckStatus_def respondError_def respondJSON_def)

text \<open>
  C6, as the code has it.  The status query yields the record exactly when it is in the
  registry and has not expired.  When no poll of the wait finds the check in a terminal
  state, the wait ends with the accepted response, whose poll URL ends in the check id.
  When the first poll that finds it terminal finds it Completed, the response is the
  success result with the record's score, level, categories and sanctions and a report
  link signed at that moment; when it finds it Failed, the response is 502 with the
  record's error message.  A later status query that finds the record Completed returns
  that same success result, with the link signed at the time of the query, and one that
  finds it Failed returns 500 with the record's error message.
\<close>

theorem bounded_wait_and_status_query:
  "((\<forall>(now, r) \<in> set polls. \<forall>c. GetCheckStatusUseCase_Execute now r checkID = Inr c
        \<longrightarrow> Status c = StatusProcessing) \<longrightarrow>
      CheckAddress_wait mac h checkID polls =
        (StatusAccepted, CheckAddressAcceptedResponse ''processing''
           ''Check is being processed. Use the poll_url to check status.''
           (apiURL h @ ''/v1/check-address/'' @ checkID)))
   \<and> ((\<forall>(now, r) \<in> set pre. \<forall>c. GetCheckStatusUseCase_Execute now r checkID = Inr c
        \<longrightarrow> Status c = StatusProcessing)
      \<and> GetCheckStatusUseCase_Execute now r checkID = Inr c \<and> Status c = StatusCompleted \<longrightarrow>
      CheckAddress_wait mac h checkID (pre @ (now, r) # post) =
        (StatusOK, CheckAddressResponse ''success'' (RiskScore c) (RiskLevel c) (Categories c)
           (ToSanctionsDTO (Sanctions c))
           (apiURL h @ ''/v1/report/''
              @ HMACToken_Sign mac (tokenSecret h) now (ReportKey c) (24 * Hour))))
   \<and> ((\<forall>(now, r) \<in> set pre. \<forall>c. GetCheckStatusUseCase_Execute now r checkID = Inr c
        \<longrightarrow> Status c = StatusProcessing)
      \<and> GetCheckStatusUseCase_Execute now r checkID = Inr c \<and> Status c = StatusFailed \<longrightarrow>
      CheckAddress_wait mac h checkID (pre @ (now, r) # post) =
        (StatusBadGateway, ErrorResponse (''AML check failed: '' @ ErrorMessage c)))
   \<and> (checkID \<noteq> [] \<and> GetCheckStatusUseCase_Execute now r checkID = Inr c
      \<and> Status c = StatusCompleted \<longrightarrow>
      Handlers_GetCheckStatus mac h now r checkID =
        (StatusOK, CheckAddressResponse ''success'' (RiskScore c) (RiskLevel c) (Categories c)
           (ToSanctionsDTO (Sanctions c))
           (apiURL h @ ''/v1/report/''
              @ HMACToken_Sign mac (tokenSecret h) now (ReportKey c) (24 * Hour))))
   \<and> (checkID \<noteq> [] \<and> GetCheckStatusUseCase_Execute now r checkID = Inr c
      \<and> Status c = StatusFailed \<longrightarrow>
      Handlers_GetCheckStatus mac h now r checkID =
        (StatusInternalServerError, ErrorResponse (''check failed: '' @ ErrorMessage c)))
   \<and> (GetCheckStatusUseCase_Execute now r checkID = Inr c \<longleftrightarrow>
        map_of r checkID = Some c \<and> \<not> ExpiresAt c < now)"
  using wait_timeout [of polls checkID mac h] wait_completed [of pre checkID now r c mac h post]
    wait_failed [of pre checkID now r c mac h post] query_completed [of checkID now r c mac h]
    query_failed [of checkID now r c mac h] GetCheckStatus_Inr [of now r checkID c]
  by blast

theorem bounded_wait_and_status_query_witness:
  "CheckAddress_wait (@) \<lparr> tokenSecret = ''s'', checkWaitSeconds = 20, apiURL = ''http://api'' \<rparr> ''c1''
      [(1, [(''c1'', NewAMLCheck ''c1'' 0 ''addr'' ''BTC'' 100)])]
     = (StatusAccepted, CheckAddressAcceptedResponse ''processing''
          ''Check is being processed. Use the poll_url to check status.''
          ''http://api/v1/check-address/c1'')
   \<and> CheckAddress_wait (@) \<lparr> tokenSecret = ''s'', checkWaitSeconds = 20, apiURL = ''http://api'' \<rparr> ''c1''
      [(1, [(''c1'', NewAMLCheck ''c1'' 0 ''addr'' ''BTC'' 100)]),
       (6, [(''c1'', MarkFailed 5 (NewAMLCheck ''c1'' 0 ''addr'' ''BTC'' 100) ''boom'')])]
     = (StatusBadGateway, ErrorResponse ''AML check failed: boom'')
   \<and> Handlers_GetCheckStatus (@)
      \<lparr> tokenSecret = ''s'', checkWaitSeconds = 20, apiURL = ''http://api'' \<rparr>
      6 [(''c1'', MarkFailed 5 (NewAMLCheck ''c1'' 0 ''addr'' ''BTC'' 100) ''boom'')] ''c1''
     = (StatusInternalServerError, ErrorResponse ''check failed: boom'')
   \<and> fst (CheckAddress_wait (@)
        \<lparr> tokenSecret = ''s'', checkWaitSeconds = 20, apiURL = ''http://api'' \<rparr> ''c1''
        [(1, [(''c1'', NewAMLCheck ''c1'' 0 ''addr'' ''BTC'' 100)]),
         (6, [(''c1'', MarkCompleted 5 (NewAMLCheck ''c1'' 0 ''addr'' ''BTC'' 100) 85
                         RiskLevelCritical [] None ''c1.pdf'')])]) = StatusOK
   \<and> Handlers_GetCheckStatus (@)
      \<lparr> tokenSecret = ''s'', checkWaitSeconds = 20, apiURL = ''http://api'' \<rparr>
      6 [(''c1'', MarkCompleted 5 (NewAMLCheck ''c1'' 0 ''addr'' ''BTC'' 100) 85
                         RiskLevelCritical [] None ''c1.pdf'')] ''c1''
     = CheckAddress_wait (@)
        \<lparr> tokenSecret = ''s'', checkWaitSeconds = 20, apiURL = ''http://api'' \<rparr> ''c1''
        [(1, [(''c1'', NewAMLCheck ''c1'' 0 ''addr'' ''BTC'' 100)]),
         (6, [(''c1'', MarkCompleted 5 (NewAMLCheck ''c1'' 0 ''addr'' ''BTC'' 100) 85
                         RiskLevelCritical [] None ''c1.pdf'')])]"
proof -
  let ?h = "\<lparr> tokenSecret = ''s'', checkWaitSeconds = 20, apiURL = ''http://api'' \<rparr>"
  let ?c0 = "NewAMLCheck ''c1'' 0 ''addr'' ''BTC'' 100"
  let ?cf = "MarkFailed 5 ?c0 ''boom''"
  let ?cc = "MarkCompleted 5 ?c0 85 RiskLevelCritical [] None ''c1.pdf''"
  have p: "\<forall>(now, r) \<in> set [(1, [(''c1'', ?c0)])].
             \<forall>c. GetCheckStatusUseCase_Execute now r ''c1'' = Inr c \<longrightarrow> Status c = StatusProcessing"
    by (auto simp: GetCheckStatusUseCase_Execute_def MemoryCheckRepository_Get_def
        NewAMLCheck_def split: if_splits)
  have gf: "GetCheckStatusUseCase_Execute 6 [(''c1'', ?cf)] ''c1'' = Inr ?cf"
    and sf: "Status ?cf = StatusFailed"
    by (simp_all add: GetCheckStatusUseCase_Execute_def MemoryCheckRepository_Get_def
        IsExpired_def MarkFailed_def NewAMLCheck_def)
  have gc: "GetCheckStatusUseCase_Execute 6 [(''c1'', ?cc)] ''c1'' = Inr ?cc"
    and sc: "Status ?cc = StatusCompleted"
    by (simp_all add: GetCheckStatusUseCase_Execute_def MemoryCheckRepository_Get_def
        IsExpired_def MarkCompleted_def NewAMLCheck_def)
  have ne: "''c1'' \<noteq> []" by simp
  have 1: "CheckAddress_wait (@) ?h ''c1'' [(1, [(''c1'', ?c0)])]
     = (StatusAccepted, CheckAddressAcceptedResponse ''processing''
          ''Check is being processed. Use the poll_url to check status.''
          (apiURL ?h @ ''/v1/check-address/'' @ ''c1''))"
    using p bounded_wait_and_status_query [where polls = "[(1, [(''c1'', ?c0)])]"
        and checkID = "''c1''" and mac = "(@)" and h = ?h]
    by blast
  have 2: "CheckAddress_wait (@) ?h ''c1'' ([(1, [(''c1'', ?c0)])] @ (6, [(''c1'', ?cf)]) # [])
     = (StatusBadGateway, ErrorResponse (''AML check failed: '' @ ErrorMessage ?cf))"
    using p gf sf bounded_wait_and_status_query [where pre = "[(1, [(''c1'', ?c0)])]"
        and checkID = "''c1''" and mac = "(@)" and h = ?h and now = 6 and r = "[(''c1'', ?cf)]"
        and c = ?cf and post = "[]"]
    by blast
  have 3: "Handlers_GetCheckStatus (@) ?h 6 [(''c1'', ?cf)] ''c1''
     = (StatusInternalServerError, ErrorResponse (''check failed: '' @ ErrorMessage ?cf))"
    using ne gf sf bounded_wait_and_status_query [where checkID = "''c1''" and mac = "(@)"
        and h = ?h and now = 6 and r = "[(''c1'', ?cf)]" and c = ?cf]
    by blast
  note t = bounded_wait_and_status_query [where pre = "[(1, [(''c1'', ?c0)])]"
        and checkID = "''c1''" and mac = "(@)" and h = ?h and now = 6 and r = "[(''c1'', ?cc)]"
        and c = ?cc and post = "[]"]
  have 4: "CheckAddress_wait (@) ?h ''c1'' ([(1, [(''c1'', ?c0)])] @ (6, [(''c1'', ?cc)]) # [])
     = (StatusOK, CheckAddressResponse ''success'' (RiskScore ?cc) (RiskLevel ?cc) (Categories ?cc)
           (ToSanctionsDTO (Sanctions ?cc))
           (apiURL ?h @ ''/v1/report/''
              @ HMACToken_Sign (@) (tokenSecret ?h) 6 (ReportKey ?cc) (24 * Hour)))"
    using p gc sc t by blast
  have 5: "Handlers_GetCheckStatus (@) ?h 6 [(''c1'', ?cc)] ''c1''
     = (StatusOK, CheckAddressResponse ''success'' (RiskScore ?cc) (RiskLevel ?cc) (Categories ?cc)
           (ToSanctionsDTO (Sanctions ?cc))
           (apiURL ?h @ ''/v1/report/''
              @ HMACToken_Sign (@) (tokenSecret ?h) 6 (ReportKey ?cc) (24 * Hour)))"
    using ne gc sc t by blast
  have m: "ErrorMessage ?cf = ''boom''" by (simp add: MarkFailed_def)
  from 1 2 3 4 5 m show ?thesis by (simp del: CheckAddress_wait.simps)
qed

text \<open>
  A record that is terminal during the wait is not always reported: a Completed check
  whose ExpiresAt has passed is an error for the status query, so the poll skips it, the
  wait ends with the accepted response, and the later query with the poll handle answers
  410, not the result.
\<close>

theorem terminal_but_expired_check_times_out:
  "map_option Status (map_of
      [(''c1'', MarkCompleted 5 (NewAMLCheck ''c1'' 0 ''addr'' ''BTC'' 8) 85 RiskLevelCritical
                  [] None ''c1.pdf'')] ''c1'') = Some StatusCompleted
   \<and> CheckAddress_wait (@) \<lparr> tokenSecret = ''s'', checkWaitSeconds = 20, apiURL = ''http://api'' \<rparr> ''c1''
      [(10, [(''c1'', MarkCompleted 5 (NewAMLCheck ''c1'' 0 ''addr'' ''BTC'' 8) 85 RiskLevelCritical
                        [] None ''c1.pdf'')])]
     = (StatusAccepted, CheckAddressAcceptedResponse ''processing''
          ''Check is being processed. Use the poll_url to check status.''
          ''http://api/v1/check-address/c1'')
   \<and> Handlers_GetCheckStatus (@) \<lparr> tokenSecret = ''s'', checkWaitSeconds = 20, apiURL = ''http://api'' \<rparr>
      11 [(''c1'', MarkCompleted 5 (NewAMLCheck ''c1'' 0 ''addr'' ''BTC'' 8) 85 RiskLevelCritical
                        [] None ''c1.pdf'')] ''c1''
     = (StatusGone, ErrorResponse ''check expired'')"
  by (simp add: GetCheckStatusUseCase_Execute_def MemoryCheckRepository_Get_def IsExpired_def
      MarkCompleted_def NewAMLCheck_def respondJSON_def respondError_def Handlers_GetCheckStatus_def
      HasPrefix_def)


end
